theory Spec2Isabelle
  imports Main "HOL-Library.Word" "HOL-Library.Code_Target_Numeral"
begin

section \<open>The collector of the ELB trust store exporter\<close>

text \<open>
  A shallow embedding of package \<open>collector\<close>: the \<open>Collector\<close> struct, its constructor
  \<open>New\<close>, one cycle \<open>scrape\<close> and the per trust store step \<open>collectTrustStoreMetrics\<close>
  with its PEM loop.

  The calls that leave the package (clock, AWS SDK, HTTP client, \<open>pem.Decode\<close>,
  \<open>x509.ParseCertificate\<close>) are the fields of an environment record \<open>Env\<close>: each is an
  arbitrary function from the arguments the source passes to the pair of result and
  error the source receives, written as a sum (\<open>Inl\<close> carries the error).
  A nil pointer dereference of the source (\<open>*ts.Name\<close>, \<open>*bundle.Location\<close>, ...) is the
  outcome \<open>Panic\<close>. The PEM loop runs as long as \<open>pem.Decode\<close> returns blocks, so it is a
  partial function: \<open>None\<close> is a cycle that never returns.
\<close>

subsection \<open>Values of the libraries\<close>

type_synonym byte = "8 word"

text \<open>A Go \<open>error\<close>: one returned by a library call, or one made by \<open>errors.New\<close>.\<close>

datatype error = LibraryError string | errors_New string

text \<open>The result of a Go call that may panic.\<close>

datatype 'a outcome = Panic | Returned 'a

text \<open>
  \<open>time.Time\<close> is the number of nanoseconds since the epoch, \<open>time.Duration\<close> a number
  of nanoseconds. \<open>Unix\<close> is the number of whole seconds.
\<close>

type_synonym Time = int
type_synonym Duration = int

definition Unix :: "Time \<Rightarrow> int" where
  "Unix t = t div 1000000000"

text \<open>
  A sample value is a \<open>float64\<close>. The source makes it by converting an integer
  (\<open>float64(n)\<close>, and the literals 0 and 1) or by \<open>Duration.Seconds\<close>; the model keeps
  the argument of the conversion.
\<close>

datatype float64 = float64 int | Seconds Duration

text \<open>\<open>big.Int.BitLen\<close>: the length of the absolute value in bits; 0 has length 0.\<close>

fun bits :: "nat \<Rightarrow> nat" where
  "bits n = (if n = 0 then 0 else Suc (bits (n div 2)))"

declare bits.simps [simp del]

definition BitLen :: "int \<Rightarrow> int" where
  "BitLen x = int (bits (nat \<bar>x\<bar>))"

text \<open>\<open>strconv.Itoa\<close> and \<open>big.Int.String\<close>: the decimal digits, after a minus sign for a negative number.\<close>

definition digit :: "nat \<Rightarrow> char" where
  "digit d = ''0123456789'' ! d"

fun digits :: "nat \<Rightarrow> string" where
  "digits n = (if n < 10 then [digit n] else digits (n div 10) @ [digit (n mod 10)])"

declare digits.simps [simp del]

definition Itoa :: "int \<Rightarrow> string" where
  "Itoa i = (if i < 0 then CHR ''-'' # digits (nat (- i)) else digits (nat i))"

subsection \<open>Prometheus descriptors and constant metrics\<close>

record Desc =
  fqName :: string
  help_ :: string
  variableLabels :: "string list"

definition BuildFQName :: "string \<Rightarrow> string \<Rightarrow> string \<Rightarrow> string" where
  "BuildFQName ns subsystem name =
     (if name = [] then []
      else if ns \<noteq> [] \<and> subsystem \<noteq> [] then ns @ ''_'' @ subsystem @ ''_'' @ name
      else if ns \<noteq> [] then ns @ ''_'' @ name
      else if subsystem \<noteq> [] then subsystem @ ''_'' @ name
      else name)"

definition NewDesc :: "string \<Rightarrow> string \<Rightarrow> string list \<Rightarrow> Desc" where
  "NewDesc fq h ls = \<lparr>fqName = fq, help_ = h, variableLabels = ls\<rparr>"

datatype ValueType = CounterValue | GaugeValue | UntypedValue

record Metric =
  desc :: Desc
  valType :: ValueType
  val :: float64
  labelValues :: "string list"

text \<open>
  \<open>prometheus.MustNewConstMetric\<close>. The library panics when the number of label values
  differs from the number of label names of the descriptor or when a label value is
  not valid UTF-8; the first cannot happen with the descriptors of \<open>New\<close>
  (lemma \<open>collected_label_count\<close> below), the second is not modelled.
\<close>

definition MustNewConstMetric :: "Desc \<Rightarrow> ValueType \<Rightarrow> float64 \<Rightarrow> string list \<Rightarrow> Metric" where
  "MustNewConstMetric d t v ls = \<lparr>desc = d, valType = t, val = v, labelValues = ls\<rparr>"

subsection \<open>AWS, HTTP, PEM and X.509 values\<close>

text \<open>\<open>types.TrustStore\<close>: every field is a pointer, \<open>None\<close> is nil.\<close>

record TrustStore =
  TrustStoreArn :: "string option"
  Name :: "string option"
  NumberOfCaCertificates :: "32 word option"
  TotalRevokedEntries :: "64 word option"

record aws_Config =
  Region :: string

record DescribeTrustStoresOutput =
  TrustStores :: "TrustStore list"

record GetTrustStoreCaCertificatesBundleOutput =
  Location :: "string option"

text \<open>
  \<open>http.Response\<close>: the body is what \<open>ioutil.ReadAll\<close> will get from it, all its bytes
  or a read error.
\<close>

record http_Response =
  Body :: "error + byte list"

definition ioutil_ReadAll :: "error + byte list \<Rightarrow> error + byte list" where
  "ioutil_ReadAll r = r"

record pem_Block =
  Type :: string
  Bytes :: "byte list"

text \<open>
  \<open>crypto.PublicKey\<close> by its dynamic type: an RSA key with its modulus \<open>N\<close>, an ECDSA
  key with the \<open>BitSize\<close> of its curve's parameters, or any other value.
\<close>

datatype PublicKey = rsa_PublicKey int | ecdsa_PublicKey int | other_PublicKey

text \<open>
  \<open>x509.Certificate\<close>: issuer, subject and signature algorithm are kept as the strings
  their \<open>String\<close> methods return.
\<close>

record Certificate =
  SerialNumber :: int
  Issuer :: string
  Subject :: string
  SignatureAlgorithm :: string
  PublicKey :: PublicKey
  NotBefore :: Time
  NotAfter :: Time

datatype LoadOption = WithRegion string

record Env =
  time_Now :: Time
  time_Since :: "Time \<Rightarrow> Duration"
  LoadDefaultConfig :: "LoadOption list \<Rightarrow> error + aws_Config"
  DescribeTrustStores :: "aws_Config \<Rightarrow> string list option \<Rightarrow> error + DescribeTrustStoresOutput"
  GetTrustStoreCaCertificatesBundle ::
    "aws_Config \<Rightarrow> string option \<Rightarrow> error + GetTrustStoreCaCertificatesBundleOutput"
  http_Get :: "string \<Rightarrow> error + http_Response"
  pem_Decode :: "byte list \<Rightarrow> pem_Block option \<times> byte list"
  x509_ParseCertificate :: "byte list \<Rightarrow> error + Certificate"

subsection \<open>The collector\<close>

text \<open>The struct without its mutex: one cycle is sequential.\<close>

record Collector =
  metrics :: "Metric list"
  scrapeInterval :: Duration
  region :: string
  trustStoreARNs :: "string list"
  collectorSuccess :: Desc
  certificateInfo :: Desc
  certificateNotBefore :: Desc
  certificateExpiry :: Desc
  trustStoreInfo :: Desc
  trustStoreCertificates :: Desc
  trustStoreRevokedEntries :: Desc
  exporterLastScrapeTimestamp :: Desc
  exporterScrapeDurationSeconds :: Desc
  exporterScrapeInterval :: Desc

definition namespace :: string where
  "namespace = ''elb_trust_store''"

text \<open>The struct literal of \<open>New\<close>, before the first cycle.\<close>

definition newCollector :: "string \<Rightarrow> string list \<Rightarrow> Duration \<Rightarrow> Collector" where
  "newCollector reg arns interval =
    \<lparr>metrics = [],
     scrapeInterval = interval,
     region = reg,
     trustStoreARNs = arns,
     collectorSuccess = NewDesc (BuildFQName namespace [] ''collector_success'')
       ''Was the last scrape of the collector successful.'' [],
     certificateInfo = NewDesc (BuildFQName namespace ''certificate'' ''info'')
       ''Information about a certificate in a trust store.''
       [''trust_store_arn'', ''serial_number'', ''issuer'', ''subject'', ''signature_algo'', ''key_length''],
     certificateNotBefore = NewDesc (BuildFQName namespace ''certificate'' ''not_before'')
       ''The timestamp of the start of the certificate's validity (in seconds since epoch).''
       [''trust_store_arn'', ''serial_number'', ''subject''],
     certificateExpiry = NewDesc (BuildFQName namespace ''certificate'' ''expiry'')
       ''The timestamp of the certificate's expiry (in seconds since epoch).''
       [''trust_store_arn'', ''serial_number'', ''subject''],
     trustStoreInfo = NewDesc (BuildFQName namespace [] ''info'')
       ''Information about the trust store.''
       [''trust_store_arn'', ''name'', ''region''],
     trustStoreCertificates = NewDesc (BuildFQName namespace [] ''certificates'')
       ''The number of CA certificates in the trust store.''
       [''trust_store_arn''],
     trustStoreRevokedEntries = NewDesc (BuildFQName namespace [] ''revoked_entries'')
       ''The number of revoked entries in the trust store.''
       [''trust_store_arn''],
     exporterLastScrapeTimestamp = NewDesc (BuildFQName namespace ''exporter'' ''last_scrape_timestamp'')
       ''The timestamp of the last successful scrape of the AWS API.'' [],
     exporterScrapeDurationSeconds = NewDesc (BuildFQName namespace ''exporter'' ''scrape_duration_seconds'')
       ''The duration of the last scrape of the AWS API.'' [],
     exporterScrapeInterval = NewDesc (BuildFQName namespace ''exporter'' ''scrape_interval'')
       ''The interval between scraping the AWS API.'' []\<rparr>"

text \<open>
  The switch on the dynamic type of \<open>cert.PublicKey\<close>: the key length, or the error of
  the default branch.
\<close>

definition keyLength :: "PublicKey \<Rightarrow> error + int" where
  "keyLength pk =
     (case pk of
        rsa_PublicKey N \<Rightarrow> Inr (BitLen N)
      | ecdsa_PublicKey BitSize \<Rightarrow> Inr BitSize
      | other_PublicKey \<Rightarrow> Inl (errors_New ''unknown public key type''))"

text \<open>The three samples the loop body appends for one certificate.\<close>

definition certificateMetrics :: "Collector \<Rightarrow> string \<Rightarrow> Certificate \<Rightarrow> int \<Rightarrow> Metric list" where
  "certificateMetrics c arn cert keyLen =
     [MustNewConstMetric (certificateInfo c) GaugeValue (float64 1)
        [arn, Itoa (SerialNumber cert), Issuer cert, Subject cert, SignatureAlgorithm cert, Itoa keyLen],
      MustNewConstMetric (certificateNotBefore c) GaugeValue (float64 (Unix (NotBefore cert)))
        [arn, Itoa (SerialNumber cert), Subject cert],
      MustNewConstMetric (certificateExpiry c) GaugeValue (float64 (Unix (NotAfter cert)))
        [arn, Itoa (SerialNumber cert), Subject cert]]"

text \<open>
  The loop \<open>for len(pemData) > 0\<close> of \<open>collectTrustStoreMetrics\<close>; \<open>arn\<close> is
  \<open>*ts.TrustStoreArn\<close>, which is not nil once the loop is reached. The result is the
  error returned and the slice behind \<open>metrics\<close>.
\<close>

partial_function (option) pemLoop ::
  "Env \<Rightarrow> Collector \<Rightarrow> string \<Rightarrow> byte list \<Rightarrow> Metric list \<Rightarrow> (error option \<times> Metric list) option" where
  "pemLoop env c arn pemData ms =
     (if length pemData > 0 then
        (case pem_Decode env pemData of
           (None, rest) \<Rightarrow> Some (None, ms)
         | (Some block, rest) \<Rightarrow>
             if Type block \<noteq> ''CERTIFICATE'' then pemLoop env c arn rest ms
             else
               (case x509_ParseCertificate env (Bytes block) of
                  Inl err \<Rightarrow> pemLoop env c arn rest ms
                | Inr cert \<Rightarrow>
                    (case keyLength (PublicKey cert) of
                       Inl err \<Rightarrow> Some (Some err, ms)
                     | Inr keyLen \<Rightarrow> pemLoop env c arn rest (ms @ certificateMetrics c arn cert keyLen))))
      else Some (None, ms))"

declare pemLoop.simps [code]

definition collectTrustStoreMetrics ::
  "Env \<Rightarrow> Collector \<Rightarrow> aws_Config \<Rightarrow> TrustStore \<Rightarrow> Metric list
    \<Rightarrow> (error option \<times> Metric list) outcome option" where
  "collectTrustStoreMetrics env c svc ts ms =
     (case TrustStoreArn ts of None \<Rightarrow> Some Panic | Some arn \<Rightarrow>
      case Name ts of None \<Rightarrow> Some Panic | Some name \<Rightarrow>
      let ms = ms @ [MustNewConstMetric (trustStoreInfo c) GaugeValue (float64 1) [arn, name, region c]] in
      case NumberOfCaCertificates ts of None \<Rightarrow> Some Panic | Some n \<Rightarrow>
      let ms = ms @ [MustNewConstMetric (trustStoreCertificates c) GaugeValue (float64 (sint n)) [arn]] in
      case TotalRevokedEntries ts of None \<Rightarrow> Some Panic | Some r \<Rightarrow>
      let ms = ms @ [MustNewConstMetric (trustStoreRevokedEntries c) GaugeValue (float64 (sint r)) [arn]] in
      case GetTrustStoreCaCertificatesBundle env svc (TrustStoreArn ts) of
        Inl err \<Rightarrow> Some (Returned (Some err, ms))
      | Inr bundle \<Rightarrow>
      case Location bundle of None \<Rightarrow> Some Panic | Some loc \<Rightarrow>
      case http_Get env loc of
        Inl err \<Rightarrow> Some (Returned (Some err, ms))
      | Inr resp \<Rightarrow>
      case ioutil_ReadAll (Body resp) of
        Inl err \<Rightarrow> Some (Returned (Some err, ms))
      | Inr pemData \<Rightarrow> map_option Returned (pemLoop env c arn pemData ms))"

text \<open>
  The loop \<open>for _, ts := range result.TrustStores\<close> of \<open>scrape\<close>, on the local variables
  \<open>metrics\<close> and \<open>success\<close>.
\<close>

fun scrapeLoop ::
  "Env \<Rightarrow> Collector \<Rightarrow> aws_Config \<Rightarrow> TrustStore list \<Rightarrow> Metric list \<Rightarrow> bool
    \<Rightarrow> (Metric list \<times> bool) outcome option" where
  "scrapeLoop env c svc [] ms success = Some (Returned (ms, success))"
| "scrapeLoop env c svc (ts # tss) ms success =
     (case collectTrustStoreMetrics env c svc ts ms of
        None \<Rightarrow> None
      | Some Panic \<Rightarrow> Some Panic
      | Some (Returned (None, ms')) \<Rightarrow> scrapeLoop env c svc tss ms' success
      | Some (Returned (Some err, ms')) \<Rightarrow> scrapeLoop env c svc tss ms' False)"

text \<open>Lines 152 to 189 of \<open>scrape\<close>: the local \<open>metrics\<close> and \<open>success\<close> before the lock is taken.\<close>

definition scrapeCollect :: "Env \<Rightarrow> Collector \<Rightarrow> (Metric list \<times> bool) outcome option" where
  "scrapeCollect env c =
     (let cfgOpts = (if region c \<noteq> [] then [WithRegion (region c)] else []) in
      case LoadDefaultConfig env cfgOpts of
        Inl err \<Rightarrow> Some (Returned ([], False))
      | Inr cfg \<Rightarrow>
          let svc = cfg;
              input = (if length (trustStoreARNs c) > 0 then Some (trustStoreARNs c) else None) in
          (case DescribeTrustStores env svc input of
             Inl err \<Rightarrow> Some (Returned ([], False))
           | Inr result \<Rightarrow> scrapeLoop env c svc (TrustStores result) [] True))"

text \<open>The four exporter samples appended under the lock.\<close>

definition exporterMetrics :: "Collector \<Rightarrow> Time \<Rightarrow> Duration \<Rightarrow> bool \<Rightarrow> Metric list" where
  "exporterMetrics c now scrapeDuration success =
     [MustNewConstMetric (exporterLastScrapeTimestamp c) GaugeValue (float64 (Unix now)) [],
      MustNewConstMetric (exporterScrapeDurationSeconds c) GaugeValue (Seconds scrapeDuration) [],
      MustNewConstMetric (exporterScrapeInterval c) GaugeValue (Seconds (scrapeInterval c)) [],
      (if success then MustNewConstMetric (collectorSuccess c) GaugeValue (float64 1) []
       else MustNewConstMetric (collectorSuccess c) GaugeValue (float64 0) [])]"

text \<open>One cycle: \<open>Returned c'\<close> is the collector after \<open>c.metrics = metrics\<close>.\<close>

definition scrape :: "Env \<Rightarrow> Collector \<Rightarrow> Collector outcome option" where
  "scrape env c =
     (let now = time_Now env in
      case scrapeCollect env c of
        None \<Rightarrow> None
      | Some Panic \<Rightarrow> Some Panic
      | Some (Returned (ms, success)) \<Rightarrow>
          let scrapeDuration = time_Since env now in
          Some (Returned (c\<lparr>metrics := ms @ exporterMetrics c now scrapeDuration success\<rparr>)))"

text \<open>\<open>New\<close>: the struct literal and the first cycle (the background goroutine starts after it).\<close>

definition New :: "Env \<Rightarrow> string \<Rightarrow> string list \<Rightarrow> Duration \<Rightarrow> Collector outcome option" where
  "New env reg arns interval = scrape env (newCollector reg arns interval)"

subsection \<open>The blocks of a PEM stream and the certificate facts\<close>

text \<open>
  \<open>pem_stream env pemData blocks\<close>: calling \<open>pem.Decode\<close> on \<open>pemData\<close> and then on each
  rest it returns gives \<open>blocks\<close>, in this order, and then stops, at the end of the
  bytes or at a rest in which \<open>pem.Decode\<close> finds no block.
\<close>

inductive pem_stream :: "Env \<Rightarrow> byte list \<Rightarrow> pem_Block list \<Rightarrow> bool" for env where
  pem_end: "pem_stream env [] []"
| pem_stop: "pemData \<noteq> [] \<Longrightarrow> pem_Decode env pemData = (None, rest) \<Longrightarrow> pem_stream env pemData []"
| pem_block: "pemData \<noteq> [] \<Longrightarrow> pem_Decode env pemData = (Some b, rest) \<Longrightarrow> pem_stream env rest bs
    \<Longrightarrow> pem_stream env pemData (b # bs)"

code_pred pem_stream .

text \<open>
  The extractor in the words of the specification, on the blocks of a stream: a block
  that is not of type CERTIFICATE is skipped, a certificate block that does not parse
  is skipped, a certificate with a key that is neither RSA nor elliptic-curve ends the
  extraction with an error. A fact is a certificate with its key length; the result
  is the error, if any, and the facts before it.
\<close>

fun extractFacts :: "Env \<Rightarrow> pem_Block list \<Rightarrow> error option \<times> (Certificate \<times> int) list" where
  "extractFacts env [] = (None, [])"
| "extractFacts env (b # bs) =
     (if Type b \<noteq> ''CERTIFICATE'' then extractFacts env bs
      else
        (case x509_ParseCertificate env (Bytes b) of
           Inl err \<Rightarrow> extractFacts env bs
         | Inr cert \<Rightarrow>
             (case keyLength (PublicKey cert) of
                Inl err \<Rightarrow> (Some err, [])
              | Inr keyLen \<Rightarrow> (fst (extractFacts env bs), (cert, keyLen) # snd (extractFacts env bs)))))"

definition factMetrics :: "Collector \<Rightarrow> string \<Rightarrow> (Certificate \<times> int) list \<Rightarrow> Metric list" where
  "factMetrics c arn facts = concat (map (\<lambda>(cert, keyLen). certificateMetrics c arn cert keyLen) facts)"

text \<open>\<open>pem.Decode\<close> returns a rest shorter than its argument whenever it returns a block.\<close>

definition pem_Decode_consumes :: "Env \<Rightarrow> bool" where
  "pem_Decode_consumes env \<longleftrightarrow>
     (\<forall>pemData b rest. pem_Decode env pemData = (Some b, rest) \<longrightarrow> length rest < length pemData)"

subsection \<open>What one trust store adds to a cycle\<close>

text \<open>The three samples at the head of \<open>collectTrustStoreMetrics\<close>.\<close>

definition trustStoreMetrics :: "Collector \<Rightarrow> string \<Rightarrow> string \<Rightarrow> 32 word \<Rightarrow> 64 word \<Rightarrow> Metric list" where
  "trustStoreMetrics c arn name n r =
     [MustNewConstMetric (trustStoreInfo c) GaugeValue (float64 1) [arn, name, region c],
      MustNewConstMetric (trustStoreCertificates c) GaugeValue (float64 (sint n)) [arn],
      MustNewConstMetric (trustStoreRevokedEntries c) GaugeValue (float64 (sint r)) [arn]]"

text \<open>
  The error \<open>collectTrustStoreMetrics\<close> returns for a trust store and the samples it
  appends, read off a call on the empty slice.
\<close>

definition storeError :: "Env \<Rightarrow> Collector \<Rightarrow> aws_Config \<Rightarrow> TrustStore \<Rightarrow> error option" where
  "storeError env c svc ts =
     (case collectTrustStoreMetrics env c svc ts [] of
        Some (Returned (err, ms)) \<Rightarrow> err
      | _ \<Rightarrow> None)"

definition contribution :: "Env \<Rightarrow> Collector \<Rightarrow> aws_Config \<Rightarrow> TrustStore \<Rightarrow> Metric list" where
  "contribution env c svc ts =
     (case collectTrustStoreMetrics env c svc ts [] of
        Some (Returned (err, ms)) \<Rightarrow> ms
      | _ \<Rightarrow> [])"

text \<open>
  The responses of the AWS API carry every field the source dereferences: no cycle
  panics on a nil pointer.
\<close>

definition TrustStore_complete :: "TrustStore \<Rightarrow> bool" where
  "TrustStore_complete ts \<longleftrightarrow>
     TrustStoreArn ts \<noteq> None \<and> Name ts \<noteq> None \<and>
     NumberOfCaCertificates ts \<noteq> None \<and> TotalRevokedEntries ts \<noteq> None"

definition responses_complete :: "Env \<Rightarrow> bool" where
  "responses_complete env \<longleftrightarrow>
     (\<forall>svc input out. DescribeTrustStores env svc input = Inr out
        \<longrightarrow> list_all TrustStore_complete (TrustStores out)) \<and>
     (\<forall>svc arn bundle. GetTrustStoreCaCertificatesBundle env svc arn = Inr bundle
        \<longrightarrow> Location bundle \<noteq> None)"

text \<open>The arguments \<open>scrape\<close> passes to \<open>config.LoadDefaultConfig\<close> and \<open>DescribeTrustStores\<close>.\<close>

definition cfgOptsOf :: "Collector \<Rightarrow> LoadOption list" where
  "cfgOptsOf c = (if region c \<noteq> [] then [WithRegion (region c)] else [])"

definition inputOf :: "Collector \<Rightarrow> string list option" where
  "inputOf c = (if length (trustStoreARNs c) > 0 then Some (trustStoreARNs c) else None)"

text \<open>
  The samples a cycle collects before the exporter samples and its \<open>success\<close> flag, by
  the outcome of the configuration and enumeration calls.
\<close>

definition collected :: "Env \<Rightarrow> Collector \<Rightarrow> Metric list" where
  "collected env c =
     (case LoadDefaultConfig env (cfgOptsOf c) of
        Inl err \<Rightarrow> []
      | Inr cfg \<Rightarrow>
          (case DescribeTrustStores env cfg (inputOf c) of
             Inl err \<Rightarrow> []
           | Inr result \<Rightarrow> concat (map (contribution env c cfg) (TrustStores result))))"

definition cycleSuccess :: "Env \<Rightarrow> Collector \<Rightarrow> bool" where
  "cycleSuccess env c =
     (case LoadDefaultConfig env (cfgOptsOf c) of
        Inl err \<Rightarrow> False
      | Inr cfg \<Rightarrow>
          (case DescribeTrustStores env cfg (inputOf c) of
             Inl err \<Rightarrow> False
           | Inr result \<Rightarrow> list_all (\<lambda>ts. storeError env c cfg ts = None) (TrustStores result)))"

text \<open>A collector as \<open>New\<close> makes it, with any published snapshot \<open>old\<close>.\<close>

definition collectorOf :: "string \<Rightarrow> string list \<Rightarrow> Duration \<Rightarrow> Metric list \<Rightarrow> Collector" where
  "collectorOf reg arns interval old = (newCollector reg arns interval)\<lparr>metrics := old\<rparr>"

text \<open>The three families of samples, by descriptor.\<close>

definition exporterLevel :: "Collector \<Rightarrow> Metric \<Rightarrow> bool" where
  "exporterLevel c m \<longleftrightarrow>
     desc m = exporterLastScrapeTimestamp c \<or> desc m = exporterScrapeDurationSeconds c \<or>
     desc m = exporterScrapeInterval c \<or> desc m = collectorSuccess c"

definition trustStoreLevel :: "Collector \<Rightarrow> Metric \<Rightarrow> bool" where
  "trustStoreLevel c m \<longleftrightarrow>
     desc m = trustStoreInfo c \<or> desc m = trustStoreCertificates c \<or>
     desc m = trustStoreRevokedEntries c"

definition certificateLevel :: "Collector \<Rightarrow> Metric \<Rightarrow> bool" where
  "certificateLevel c m \<longleftrightarrow>
     desc m = certificateInfo c \<or> desc m = certificateNotBefore c \<or>
     desc m = certificateExpiry c"

text \<open>
  Lines 214 to 233 of \<open>collectTrustStoreMetrics\<close> on their own: the bytes of the bundle
  of the trust store \<open>arn\<close>, the error of the first call that fails, or the panic on a
  bundle without location.
\<close>

definition bundleBytes :: "Env \<Rightarrow> aws_Config \<Rightarrow> string \<Rightarrow> (error + byte list) outcome" where
  "bundleBytes env svc arn =
     (case GetTrustStoreCaCertificatesBundle env svc (Some arn) of
        Inl err \<Rightarrow> Returned (Inl err)
      | Inr bundle \<Rightarrow>
          (case Location bundle of
             None \<Rightarrow> Panic
           | Some loc \<Rightarrow>
               (case http_Get env loc of
                  Inl err \<Rightarrow> Returned (Inl err)
                | Inr resp \<Rightarrow> Returned (ioutil_ReadAll (Body resp)))))"

text \<open>
  A trust store succeeds when its bundle is fetched and read and the extraction of its
  blocks ends without error; a cycle succeeds when the configuration is resolved, the
  trust stores are enumerated and every one of them succeeds.
\<close>

definition storeSucceeds :: "Env \<Rightarrow> aws_Config \<Rightarrow> TrustStore \<Rightarrow> bool" where
  "storeSucceeds env svc ts \<longleftrightarrow>
     (\<exists>arn pemData blocks. TrustStoreArn ts = Some arn \<and>
        bundleBytes env svc arn = Returned (Inr pemData) \<and>
        pem_stream env pemData blocks \<and> fst (extractFacts env blocks) = None)"

definition cycleSucceeds :: "Env \<Rightarrow> Collector \<Rightarrow> bool" where
  "cycleSucceeds env c \<longleftrightarrow>
     (\<exists>cfg result. LoadDefaultConfig env (cfgOptsOf c) = Inr cfg \<and>
        DescribeTrustStores env cfg (inputOf c) = Inr result \<and>
        list_all (storeSucceeds env cfg) (TrustStores result))"

text \<open>
  The certificates of a list of blocks: those of the CERTIFICATE blocks that parse, in
  the order of the blocks.
\<close>

definition parsedCertificates :: "Env \<Rightarrow> pem_Block list \<Rightarrow> Certificate list" where
  "parsedCertificates env blocks =
     List.map_filter
       (\<lambda>b. if Type b \<noteq> ''CERTIFICATE'' then None
            else (case x509_ParseCertificate env (Bytes b) of Inl err \<Rightarrow> None | Inr cert \<Rightarrow> Some cert))
       blocks"

definition keyLengthOf :: "Certificate \<Rightarrow> int" where
  "keyLengthOf cert = (case keyLength (PublicKey cert) of Inl err \<Rightarrow> 0 | Inr keyLen \<Rightarrow> keyLen)"

text \<open>The snapshot a cycle publishes; empty when the cycle publishes none.\<close>

definition published :: "Collector outcome option \<Rightarrow> Metric list" where
  "published r = (case r of Some (Returned c) \<Rightarrow> metrics c | _ \<Rightarrow> [])"

subsection \<open>An example environment\<close>

text \<open>
  A small environment on which the theorems below are instantiated. Its decoder reads
  two bytes per block: \<open>1, p\<close> is a CERTIFICATE block with payload \<open>p\<close>, \<open>2, p\<close> a
  PRIVATE KEY block, and anything else holds no block. Payload 1 parses to a certificate
  with an RSA key of 2048 bits, payload 2 to one with a key on a curve of 256 bits,
  payload 3 to one with a key of another kind, and any other payload does not parse.
\<close>

fun exDecode :: "byte list \<Rightarrow> pem_Block option \<times> byte list" where
  "exDecode (t # p # rest) =
     (if t = 1 then (Some \<lparr>Type = ''CERTIFICATE'', Bytes = [p]\<rparr>, rest)
      else if t = 2 then (Some \<lparr>Type = ''PRIVATE KEY'', Bytes = [p]\<rparr>, rest)
      else (None, t # p # rest))"
| "exDecode pemData = (None, pemData)"

definition exCertificate :: "int \<Rightarrow> PublicKey \<Rightarrow> Certificate" where
  "exCertificate serial key =
     \<lparr>SerialNumber = serial, Issuer = ''CN=Example Root'', Subject = ''CN=Example CA'',
      SignatureAlgorithm = ''SHA256-RSA'', PublicKey = key,
      NotBefore = 1600000000000000000, NotAfter = 1900000000000000000\<rparr>"

definition exModulus :: int where
  "exModulus = 2 ^ 2047 + 1"

definition exCertRSA :: Certificate where
  "exCertRSA = exCertificate 4097 (rsa_PublicKey exModulus)"

definition exCertEC :: Certificate where
  "exCertEC = exCertificate 4098 (ecdsa_PublicKey 256)"

definition exCertOther :: Certificate where
  "exCertOther = exCertificate 4099 other_PublicKey"

fun exParse :: "byte list \<Rightarrow> error + Certificate" where
  "exParse [p] =
     (if p = 1 then Inr exCertRSA
      else if p = 2 then Inr exCertEC
      else if p = 3 then Inr exCertOther
      else Inl (LibraryError ''x509: malformed certificate''))"
| "exParse der = Inl (LibraryError ''x509: malformed certificate'')"

definition exStoreA :: TrustStore where
  "exStoreA = \<lparr>TrustStoreArn = Some ''arn:A'', Name = Some ''A'',
     NumberOfCaCertificates = Some 3, TotalRevokedEntries = Some 0\<rparr>"

definition exStoreB :: TrustStore where
  "exStoreB = \<lparr>TrustStoreArn = Some ''arn:B'', Name = Some ''B'',
     NumberOfCaCertificates = Some 2, TotalRevokedEntries = Some 1\<rparr>"

text \<open>
  Two trust stores are enumerated: the bundle call fails for A, and the bundle of B holds
  an RSA certificate, a key block, an elliptic-curve certificate and a trailing byte.
  The region, when the collector names none, is discovered as eu-west-1.
\<close>

definition exCollector :: Collector where
  "exCollector = collectorOf [] [] 3600000000000 []"

definition exEnv :: Env where
  "exEnv =
     \<lparr>time_Now = 1700000000123456789,
      time_Since = (\<lambda>t. 2500000000),
      LoadDefaultConfig = (\<lambda>opts. Inr \<lparr>Region = (case opts of [WithRegion r] \<Rightarrow> r | _ \<Rightarrow> ''eu-west-1'')\<rparr>),
      DescribeTrustStores = (\<lambda>svc input. Inr \<lparr>TrustStores = [exStoreA, exStoreB]\<rparr>),
      GetTrustStoreCaCertificatesBundle = (\<lambda>svc arn.
        if arn = Some ''arn:A'' then Inl (LibraryError ''AccessDenied'')
        else Inr \<lparr>Location = Some ''https://bundles.example/B''\<rparr>),
      http_Get = (\<lambda>loc. Inr \<lparr>Body = Inr [1, 1, 2, 7, 1, 2, 0]\<rparr>),
      pem_Decode = exDecode,
      x509_ParseCertificate = exParse\<rparr>"

text \<open>The example environment with no credentials, and with an enumeration call that fails.\<close>

definition exEnvNoConfig :: Env where
  "exEnvNoConfig = exEnv\<lparr>LoadDefaultConfig := (\<lambda>opts. Inl (LibraryError ''no credentials''))\<rparr>"

definition exEnvNoList :: Env where
  "exEnvNoList = exEnv\<lparr>DescribeTrustStores := (\<lambda>svc input. Inl (LibraryError ''AccessDenied''))\<rparr>"

text \<open>The example environment in which the bundle call succeeds for every trust store.\<close>

definition exEnvOk :: Env where
  "exEnvOk = exEnv\<lparr>GetTrustStoreCaCertificatesBundle :=
     (\<lambda>svc arn. Inr \<lparr>Location = Some ''https://bundles.example/B''\<rparr>)\<rparr>"

text \<open>
  The example environment in which every bundle call succeeds and every bundle holds a
  certificate block that does not parse, followed by the RSA certificate.
\<close>

definition exEnvMalformed :: Env where
  "exEnvMalformed = exEnvOk\<lparr>http_Get := (\<lambda>loc. Inr \<lparr>Body = Inr [1, 9, 1, 1]\<rparr>)\<rparr>"


section \<open>Lemmas\<close>
subsection \<open>The PEM loop\<close>

text \<open>The loop on a stream of blocks: it returns what the extractor gives on the blocks, and a decoder that consumes its input gives every byte stream its blocks.\<close>

lemma keyLength_simps [simp]:
  "keyLength (rsa_PublicKey N) = Inr (BitLen N)"
  "keyLength (ecdsa_PublicKey BitSize) = Inr BitSize"
  "keyLength other_PublicKey = Inl (errors_New ''unknown public key type'')"
  by (simp_all add: keyLength_def)

lemma factMetrics_Nil [simp]: "factMetrics c arn [] = []"
  by (simp add: factMetrics_def)

lemma factMetrics_append:
  "factMetrics c arn (xs @ ys) = factMetrics c arn xs @ factMetrics c arn ys"
  by (simp add: factMetrics_def)

lemma factMetrics_Cons:
  "factMetrics c arn ((cert, k) # ys) = certificateMetrics c arn cert k @ factMetrics c arn ys"
  by (simp add: factMetrics_def)

lemma pem_stream_Nil: "pem_stream env [] blocks \<longleftrightarrow> blocks = []"
  by (auto elim: pem_stream.cases intro: pem_stream.intros)

lemma pem_stream_Cons:
  "pem_stream env (x # xs) blocks \<longleftrightarrow>
     (case pem_Decode env (x # xs) of
        (None, rest) \<Rightarrow> blocks = []
      | (Some b, rest) \<Rightarrow> (case blocks of [] \<Rightarrow> False | b' # bs \<Rightarrow> b' = b \<and> pem_stream env rest bs))"
proof
  assume "pem_stream env (x # xs) blocks"
  then show "case pem_Decode env (x # xs) of
        (None, rest) \<Rightarrow> blocks = []
      | (Some b, rest) \<Rightarrow> (case blocks of [] \<Rightarrow> False | b' # bs \<Rightarrow> b' = b \<and> pem_stream env rest bs)"
    by (cases rule: pem_stream.cases) auto
next
  assume a: "case pem_Decode env (x # xs) of
        (None, rest) \<Rightarrow> blocks = []
      | (Some b, rest) \<Rightarrow> (case blocks of [] \<Rightarrow> False | b' # bs \<Rightarrow> b' = b \<and> pem_stream env rest bs)"
  obtain ob rest where d: "pem_Decode env (x # xs) = (ob, rest)" by (cases "pem_Decode env (x # xs)")
  show "pem_stream env (x # xs) blocks"
  proof (cases ob)
    case None
    with a d show ?thesis by (auto intro: pem_stream.pem_stop)
  next
    case (Some b)
    with a d show ?thesis by (auto intro: pem_stream.pem_block split: list.splits)
  qed
qed

lemma pem_stream_unique:
  "pem_stream env pemData bs \<Longrightarrow> pem_stream env pemData bs' \<Longrightarrow> bs = bs'"
proof (induction arbitrary: bs' rule: pem_stream.induct)
  case pem_end
  then show ?case by (auto elim: pem_stream.cases)
next
  case (pem_stop pemData rest)
  from pem_stop.prems pem_stop.hyps show ?case by (auto elim: pem_stream.cases)
next
  case (pem_block pemData b rest bs)
  from pem_block.prems pem_block.hyps(1,2) pem_block.IH show ?case
    by (auto elim!: pem_stream.cases[of env pemData bs'])
qed

lemma pemLoop_stream:
  "pem_stream env pemData blocks \<Longrightarrow>
   pemLoop env c arn pemData ms =
     Some (fst (extractFacts env blocks), ms @ factMetrics c arn (snd (extractFacts env blocks)))"
proof (induction arbitrary: ms rule: pem_stream.induct)
  case pem_end
  show ?case by (subst pemLoop.simps) (simp add: factMetrics_def)
next
  case (pem_stop pemData rest)
  then show ?case by (subst pemLoop.simps) (simp add: factMetrics_def)
next
  case (pem_block pemData b rest bs)
  show ?case
    using pem_block.hyps(1,2)
    by (subst pemLoop.simps)
       (simp add: pem_block.IH factMetrics_def split: sum.splits)
qed

lemma pem_stream_total:
  assumes "pem_Decode_consumes env"
  shows "\<exists>blocks. pem_stream env pemData blocks"
proof (induction pemData rule: length_induct)
  case (1 xs)
  show ?case
  proof (cases "xs = []")
    case True
    then show ?thesis using pem_stream.pem_end by blast
  next
    case False
    obtain ob rest where d: "pem_Decode env xs = (ob, rest)" by (cases "pem_Decode env xs")
    show ?thesis
    proof (cases ob)
      case None
      with d False show ?thesis using pem_stream.pem_stop by blast
    next
      case (Some b)
      with d assms have "length rest < length xs" by (auto simp: pem_Decode_consumes_def)
      with 1 obtain bs where "pem_stream env rest bs" by blast
      with d Some False show ?thesis using pem_stream.pem_block by blast
    qed
  qed
qed

lemma pemLoop_total:
  assumes "pem_Decode_consumes env"
  shows "\<exists>blocks. pem_stream env pemData blocks \<and>
     (\<forall>c arn ms. pemLoop env c arn pemData ms =
        Some (fst (extractFacts env blocks), ms @ factMetrics c arn (snd (extractFacts env blocks))))"
proof -
  from pem_stream_total[OF assms] obtain blocks where "pem_stream env pemData blocks" ..
  then show ?thesis using pemLoop_stream by blast
qed

lemma extractFacts_append:
  "fst (extractFacts env pre) = None \<Longrightarrow>
   extractFacts env (pre @ bs) =
     (fst (extractFacts env bs), snd (extractFacts env pre) @ snd (extractFacts env bs))"
  by (induction pre) (auto split: sum.splits)

lemma extractFacts_parsed:
  "list_all (\<lambda>cert. PublicKey cert \<noteq> other_PublicKey) (parsedCertificates env blocks) \<Longrightarrow>
   extractFacts env blocks = (None, map (\<lambda>cert. (cert, keyLengthOf cert)) (parsedCertificates env blocks))"
proof (induction blocks)
  case Nil
  show ?case by (simp add: parsedCertificates_def map_filter_simps)
next
  case (Cons b bs)
  show ?case
  proof (cases "Type b \<noteq> ''CERTIFICATE''")
    case True
    with Cons show ?thesis by (simp add: parsedCertificates_def map_filter_simps)
  next
    case False
    show ?thesis
    proof (cases "x509_ParseCertificate env (Bytes b)")
      case (Inl e)
      with False Cons show ?thesis by (simp add: parsedCertificates_def map_filter_simps)
    next
      case (Inr cert)
      with False Cons.prems have k: "PublicKey cert \<noteq> other_PublicKey"
        and r: "list_all (\<lambda>cert. PublicKey cert \<noteq> other_PublicKey) (parsedCertificates env bs)"
        by (simp_all add: parsedCertificates_def map_filter_simps)
      from k obtain kl where kl: "keyLength (PublicKey cert) = Inr kl"
        by (cases "PublicKey cert") simp_all
      with False Inr Cons.IH[OF r] show ?thesis
        by (simp add: parsedCertificates_def map_filter_simps keyLengthOf_def)
    qed
  qed
qed

subsection \<open>Bit lengths and decimal strings\<close>

text \<open>The bit length of a number between two powers of two, and the two decimal strings of the specification.\<close>

lemma bits_bounds: "2 ^ k \<le> n \<Longrightarrow> n < 2 ^ Suc k \<Longrightarrow> bits n = Suc k"
proof (induction k arbitrary: n)
  case 0
  then have "n = 1" by simp
  then show ?case by (simp add: bits.simps)
next
  case (Suc k)
  from Suc.prems have "2 ^ k \<le> n div 2" "n div 2 < 2 ^ Suc k" by auto
  then have "bits (n div 2) = Suc k" by (rule Suc.IH)
  moreover from Suc.prems have "n \<noteq> 0" by auto
  ultimately show ?case by (subst bits.simps) simp
qed

lemma BitLen_bounds:
  assumes "2 ^ k \<le> N" "N < 2 ^ Suc k"
  shows "BitLen N = int (Suc k)"
proof -
  from assms have "0 \<le> N" by (meson le_less_trans not_less zero_le_power zero_le_numeral order_trans)
  with assms have "2 ^ k \<le> nat N" "nat N < 2 ^ Suc k"
    by (auto simp: nat_less_iff le_nat_iff)
  from bits_bounds[OF this] \<open>0 \<le> N\<close> show ?thesis by (simp add: BitLen_def)
qed

lemma Itoa_2048: "Itoa 2048 = ''2048''"
  by (simp add: Itoa_def digits.simps digit_def)

lemma Itoa_256: "Itoa 256 = ''256''"
  by (simp add: Itoa_def digits.simps digit_def)

lemma BitLen_2048: "2 ^ 2047 \<le> N \<Longrightarrow> N < 2 ^ 2048 \<Longrightarrow> Itoa (BitLen N) = ''2048''"
  using BitLen_bounds[of 2047 N] by (simp add: Itoa_2048)

subsection \<open>One trust store\<close>

text \<open>The result of \<open>collectTrustStoreMetrics\<close> by the outcome of the fetch of the bundle; it appends the same samples to every slice.\<close>

lemma collect_cases:
  assumes "TrustStoreArn ts = Some arn" "Name ts = Some name"
    "NumberOfCaCertificates ts = Some n" "TotalRevokedEntries ts = Some r"
  shows "collectTrustStoreMetrics env c svc ts ms =
     (case GetTrustStoreCaCertificatesBundle env svc (Some arn) of
        Inl err \<Rightarrow> Some (Returned (Some err, ms @ trustStoreMetrics c arn name n r))
      | Inr bundle \<Rightarrow>
          (case Location bundle of
             None \<Rightarrow> Some Panic
           | Some loc \<Rightarrow>
               (case http_Get env loc of
                  Inl err \<Rightarrow> Some (Returned (Some err, ms @ trustStoreMetrics c arn name n r))
                | Inr resp \<Rightarrow>
                    (case Body resp of
                       Inl err \<Rightarrow> Some (Returned (Some err, ms @ trustStoreMetrics c arn name n r))
                     | Inr pemData \<Rightarrow>
                         map_option Returned
                           (pemLoop env c arn pemData (ms @ trustStoreMetrics c arn name n r))))))"
  using assms
  by (simp add: collectTrustStoreMetrics_def trustStoreMetrics_def ioutil_ReadAll_def
      split: sum.splits option.splits)

lemma collect_total:
  assumes con: "pem_Decode_consumes env"
    and loc: "\<forall>svc arn bundle. GetTrustStoreCaCertificatesBundle env svc arn = Inr bundle
        \<longrightarrow> Location bundle \<noteq> None"
    and ts: "TrustStore_complete ts"
  shows "\<exists>err out. \<forall>ms. collectTrustStoreMetrics env c svc ts ms = Some (Returned (err, ms @ out))"
proof -
  from ts obtain arn name n r where f: "TrustStoreArn ts = Some arn" "Name ts = Some name"
    "NumberOfCaCertificates ts = Some n" "TotalRevokedEntries ts = Some r"
    by (auto simp: TrustStore_complete_def)
  note cc = collect_cases[OF f, of env c svc]
  show ?thesis
  proof (cases "GetTrustStoreCaCertificatesBundle env svc (Some arn)")
    case (Inl e)
    then show ?thesis by (auto simp: cc)
  next
    case (Inr bnd)
    note b = this
    with loc obtain l where l: "Location bnd = Some l" by fastforce
    show ?thesis
    proof (cases "http_Get env l")
      case (Inl e)
      with b l show ?thesis by (auto simp: cc)
    next
      case (Inr resp)
      note resp = this
      show ?thesis
      proof (cases "Body resp")
        case (Inl e)
        with b l resp show ?thesis by (auto simp: cc)
      next
        case (Inr pemData)
        note data = this
        from pemLoop_total[OF con, of pemData] obtain blocks where
          "\<forall>c arn ms. pemLoop env c arn pemData ms =
            Some (fst (extractFacts env blocks), ms @ factMetrics c arn (snd (extractFacts env blocks)))"
          by blast
        with b l resp data show ?thesis by (auto simp: cc)
      qed
    qed
  qed
qed

lemma collect_storeError_contribution:
  assumes "\<forall>ms. collectTrustStoreMetrics env c svc ts ms = Some (Returned (err, ms @ out))"
  shows "storeError env c svc ts = err" "contribution env c svc ts = out"
  using assms[rule_format, of "[]"] by (simp_all add: storeError_def contribution_def)

lemma collect_result:
  assumes "pem_Decode_consumes env"
    and "\<forall>svc arn bundle. GetTrustStoreCaCertificatesBundle env svc arn = Inr bundle
        \<longrightarrow> Location bundle \<noteq> None"
    and "TrustStore_complete ts"
  shows "collectTrustStoreMetrics env c svc ts ms =
    Some (Returned (storeError env c svc ts, ms @ contribution env c svc ts))"
proof -
  from collect_total[OF assms, of c svc] obtain err out where
    a: "\<forall>ms. collectTrustStoreMetrics env c svc ts ms = Some (Returned (err, ms @ out))"
    by blast
  from collect_storeError_contribution[OF a] a show ?thesis by simp
qed

lemma contribution_cases:
  assumes f: "TrustStoreArn ts = Some arn" "Name ts = Some name"
    "NumberOfCaCertificates ts = Some n" "TotalRevokedEntries ts = Some r"
  shows
    "GetTrustStoreCaCertificatesBundle env svc (Some arn) = Inl e \<Longrightarrow>
       storeError env c svc ts = Some e \<and> contribution env c svc ts = trustStoreMetrics c arn name n r"
    "GetTrustStoreCaCertificatesBundle env svc (Some arn) = Inr bnd \<Longrightarrow> Location bnd = Some loc \<Longrightarrow>
       http_Get env loc = Inl e \<Longrightarrow>
       storeError env c svc ts = Some e \<and> contribution env c svc ts = trustStoreMetrics c arn name n r"
    "GetTrustStoreCaCertificatesBundle env svc (Some arn) = Inr bnd \<Longrightarrow> Location bnd = Some loc \<Longrightarrow>
       http_Get env loc = Inr resp \<Longrightarrow> Body resp = Inl e \<Longrightarrow>
       storeError env c svc ts = Some e \<and> contribution env c svc ts = trustStoreMetrics c arn name n r"
    "GetTrustStoreCaCertificatesBundle env svc (Some arn) = Inr bnd \<Longrightarrow> Location bnd = Some loc \<Longrightarrow>
       http_Get env loc = Inr resp \<Longrightarrow> Body resp = Inr pemData \<Longrightarrow> pem_stream env pemData blocks \<Longrightarrow>
       storeError env c svc ts = fst (extractFacts env blocks) \<and>
       contribution env c svc ts =
         trustStoreMetrics c arn name n r @ factMetrics c arn (snd (extractFacts env blocks))"
  by (simp_all add: storeError_def contribution_def collect_cases[OF f] pemLoop_stream)

lemma bundleBytes_collect:
  assumes f: "TrustStoreArn ts = Some arn" "Name ts = Some name"
    "NumberOfCaCertificates ts = Some n" "TotalRevokedEntries ts = Some r"
  shows "collectTrustStoreMetrics env c svc ts ms =
     (case bundleBytes env svc arn of
        Panic \<Rightarrow> Some Panic
      | Returned (Inl err) \<Rightarrow> Some (Returned (Some err, ms @ trustStoreMetrics c arn name n r))
      | Returned (Inr pemData) \<Rightarrow>
          map_option Returned (pemLoop env c arn pemData (ms @ trustStoreMetrics c arn name n r)))"
  by (simp add: collect_cases[OF f] bundleBytes_def ioutil_ReadAll_def split: sum.splits option.splits)

lemma bundleBytes_no_panic:
  assumes "\<forall>svc arn bundle. GetTrustStoreCaCertificatesBundle env svc arn = Inr bundle
        \<longrightarrow> Location bundle \<noteq> None"
  shows "bundleBytes env svc arn \<noteq> Panic"
proof (cases "GetTrustStoreCaCertificatesBundle env svc (Some arn)")
  case (Inl e)
  then show ?thesis by (simp add: bundleBytes_def)
next
  case (Inr bnd)
  with assms obtain l where "Location bnd = Some l" by fastforce
  with Inr show ?thesis by (simp add: bundleBytes_def split: sum.splits)
qed

lemma store_result:
  assumes f: "TrustStoreArn ts = Some arn" "Name ts = Some name"
    "NumberOfCaCertificates ts = Some n" "TotalRevokedEntries ts = Some r"
  shows
    "bundleBytes env svc arn = Returned (Inl e) \<Longrightarrow>
       storeError env c svc ts = Some e \<and> contribution env c svc ts = trustStoreMetrics c arn name n r"
    "bundleBytes env svc arn = Returned (Inr pemData) \<Longrightarrow> pem_stream env pemData blocks \<Longrightarrow>
       storeError env c svc ts = fst (extractFacts env blocks) \<and>
       contribution env c svc ts =
         trustStoreMetrics c arn name n r @ factMetrics c arn (snd (extractFacts env blocks))"
  by (simp_all add: storeError_def contribution_def bundleBytes_collect[OF f] pemLoop_stream)

lemma contribution_form:
  assumes con: "pem_Decode_consumes env"
    and f: "TrustStoreArn ts = Some arn" "Name ts = Some name"
    "NumberOfCaCertificates ts = Some n" "TotalRevokedEntries ts = Some r"
  shows "contribution env c svc ts = []
       \<or> (\<exists>facts. contribution env c svc ts = trustStoreMetrics c arn name n r @ factMetrics c arn facts)"
proof (cases "GetTrustStoreCaCertificatesBundle env svc (Some arn)")
  case (Inl e)
  from contribution_cases(1)[OF f Inl, of c]
      have "contribution env c svc ts = trustStoreMetrics c arn name n r @ factMetrics c arn []" by simp
      then show ?thesis by blast
next
  case (Inr bnd)
  note b = this
  show ?thesis
  proof (cases "Location bnd")
    case None
    with b show ?thesis by (simp add: contribution_def collect_cases[OF f])
  next
    case (Some loc)
    note l = this
    show ?thesis
    proof (cases "http_Get env loc")
      case (Inl e)
      from contribution_cases(2)[OF f b l Inl, of c]
      have "contribution env c svc ts = trustStoreMetrics c arn name n r @ factMetrics c arn []" by simp
      then show ?thesis by blast
    next
      case (Inr resp)
      note rs = this
      show ?thesis
      proof (cases "Body resp")
        case (Inl e)
        from contribution_cases(3)[OF f b l rs Inl, of c]
      have "contribution env c svc ts = trustStoreMetrics c arn name n r @ factMetrics c arn []" by simp
      then show ?thesis by blast
      next
        case (Inr pemData)
        from pem_stream_total[OF con, of pemData] obtain blocks where "pem_stream env pemData blocks" ..
        from contribution_cases(4)[OF f b l rs Inr this, of c] show ?thesis by blast
      qed
    qed
  qed
qed

lemma contribution_complete:
  assumes con: "pem_Decode_consumes env"
    and loc: "\<forall>svc arn bundle. GetTrustStoreCaCertificatesBundle env svc arn = Inr bundle
        \<longrightarrow> Location bundle \<noteq> None"
    and f: "TrustStoreArn ts = Some arn" "Name ts = Some name"
      "NumberOfCaCertificates ts = Some n" "TotalRevokedEntries ts = Some r"
  shows "(\<exists>e. bundleBytes env svc arn = Returned (Inl e) \<and> storeError env c svc ts = Some e \<and>
            contribution env c svc ts = trustStoreMetrics c arn name n r) \<or>
         (\<exists>pemData blocks. bundleBytes env svc arn = Returned (Inr pemData) \<and>
            pem_stream env pemData blocks \<and>
            storeError env c svc ts = fst (extractFacts env blocks) \<and>
            contribution env c svc ts =
              trustStoreMetrics c arn name n r @ factMetrics c arn (snd (extractFacts env blocks)))"
proof (cases "bundleBytes env svc arn")
  case Panic
  with bundleBytes_no_panic[OF loc] show ?thesis by simp
next
  case (Returned res)
  show ?thesis
  proof (cases res)
    case (Inl e)
    with Returned have "bundleBytes env svc arn = Returned (Inl e)" by simp
    from this store_result(1)[OF f this, of c] show ?thesis by blast
  next
    case (Inr pemData)
    with Returned have bb: "bundleBytes env svc arn = Returned (Inr pemData)" by simp
    from pem_stream_total[OF con, of pemData] obtain blocks where st: "pem_stream env pemData blocks" ..
    from bb st store_result(2)[OF f bb st, of c] show ?thesis by blast
  qed
qed

lemma storeSucceeds_iff:
  assumes con: "pem_Decode_consumes env"
    and loc: "\<forall>svc arn bundle. GetTrustStoreCaCertificatesBundle env svc arn = Inr bundle
        \<longrightarrow> Location bundle \<noteq> None"
    and ts: "TrustStore_complete ts"
  shows "storeError env c svc ts = None \<longleftrightarrow> storeSucceeds env svc ts"
proof -
  from ts obtain arn name n r where f: "TrustStoreArn ts = Some arn" "Name ts = Some name"
    "NumberOfCaCertificates ts = Some n" "TotalRevokedEntries ts = Some r"
    by (auto simp: TrustStore_complete_def)
  show ?thesis
  proof (cases "bundleBytes env svc arn")
    case Panic
    with bundleBytes_no_panic[OF loc] show ?thesis by simp
  next
    case (Returned res)
    show ?thesis
    proof (cases res)
      case (Inl e)
      with Returned store_result(1)[OF f, of env svc e c] f show ?thesis
        by (simp add: storeSucceeds_def)
    next
      case (Inr pemData)
      from pem_stream_total[OF con, of pemData] obtain blocks where st: "pem_stream env pemData blocks" ..
      from Inr Returned have bb: "bundleBytes env svc arn = Returned (Inr pemData)" by simp
      from store_result(2)[OF f bb st, of c]
      have e: "storeError env c svc ts = fst (extractFacts env blocks)" by simp
      show ?thesis
      proof
        assume "storeError env c svc ts = None"
        with e f bb st show "storeSucceeds env svc ts" by (auto simp: storeSucceeds_def)
      next
        assume "storeSucceeds env svc ts"
        then obtain blocks' where "pem_stream env pemData blocks'" "fst (extractFacts env blocks') = None"
          using f bb by (auto simp: storeSucceeds_def)
        with pem_stream_unique[OF st] e show "storeError env c svc ts = None" by auto
      qed
    qed
  qed
qed

subsection \<open>One cycle\<close>

text \<open>The snapshot of a cycle that neither panics nor runs forever.\<close>

lemma scrapeLoop_result:
  assumes "pem_Decode_consumes env"
    and "\<forall>svc arn bundle. GetTrustStoreCaCertificatesBundle env svc arn = Inr bundle
        \<longrightarrow> Location bundle \<noteq> None"
    and "list_all TrustStore_complete tss"
  shows "scrapeLoop env c svc tss ms success =
    Some (Returned (ms @ concat (map (contribution env c svc) tss),
                    success \<and> list_all (\<lambda>ts. storeError env c svc ts = None) tss))"
  using assms(3)
proof (induction tss arbitrary: ms success)
  case Nil
  show ?case by simp
next
  case (Cons ts tss)
  from Cons.prems have t: "TrustStore_complete ts" and r: "list_all TrustStore_complete tss"
    by simp_all
  note cr = collect_result[OF assms(1,2) t, of c svc ms]
  show ?case
    by (cases "storeError env c svc ts") (simp_all add: cr Cons.IH[OF r])
qed

lemma scrape_result:
  assumes "pem_Decode_consumes env" and "responses_complete env"
  shows "scrape env c =
    Some (Returned (c\<lparr>metrics := collected env c @
      exporterMetrics c (time_Now env) (time_Since env (time_Now env)) (cycleSuccess env c)\<rparr>))"
proof -
  from assms(2) have loc: "\<forall>svc arn bundle. GetTrustStoreCaCertificatesBundle env svc arn = Inr bundle
        \<longrightarrow> Location bundle \<noteq> None"
    and dts: "\<And>svc input out. DescribeTrustStores env svc input = Inr out
        \<Longrightarrow> list_all TrustStore_complete (TrustStores out)"
    by (auto simp: responses_complete_def)
  have "scrapeCollect env c = Some (Returned (collected env c, cycleSuccess env c))"
  proof (cases "LoadDefaultConfig env (cfgOptsOf c)")
    case (Inl e)
    then show ?thesis
      by (simp add: scrapeCollect_def collected_def cycleSuccess_def cfgOptsOf_def)
  next
    case (Inr cfg)
    note cfg = this
    show ?thesis
    proof (cases "DescribeTrustStores env cfg (inputOf c)")
      case (Inl e)
      with cfg show ?thesis
        by (simp add: scrapeCollect_def collected_def cycleSuccess_def cfgOptsOf_def inputOf_def)
    next
      case (Inr out)
      from dts[OF Inr] have "list_all TrustStore_complete (TrustStores out)" .
      from scrapeLoop_result[OF assms(1) loc this, of c cfg "[]" True] cfg Inr
      show ?thesis
        by (simp add: scrapeCollect_def collected_def cycleSuccess_def cfgOptsOf_def inputOf_def)
    qed
  qed
  then show ?thesis by (simp add: scrape_def Let_def)
qed

lemma stores_collect:
  assumes con: "pem_Decode_consumes env" and rc: "responses_complete env"
    and res: "DescribeTrustStores env cfg input = Inr result"
  shows "list_all (\<lambda>t. \<forall>ms. collectTrustStoreMetrics env c cfg t ms =
     Some (Returned (storeError env c cfg t, ms @ contribution env c cfg t))) (TrustStores result)"
proof -
  from rc have loc: "\<forall>svc arn bundle. GetTrustStoreCaCertificatesBundle env svc arn = Inr bundle
        \<longrightarrow> Location bundle \<noteq> None"
    and dts: "list_all TrustStore_complete (TrustStores result)"
    using res by (simp_all add: responses_complete_def)
  from dts collect_result[OF con loc] show ?thesis
    by (simp add: list_all_iff)
qed

lemma scrape_stores:
  assumes con: "pem_Decode_consumes env" and rc: "responses_complete env"
    and cfg: "LoadDefaultConfig env (cfgOptsOf c) = Inr cfg"
    and res: "DescribeTrustStores env cfg (inputOf c) = Inr result"
  shows "scrape env c = Some (Returned (c\<lparr>metrics :=
      concat (map (contribution env c cfg) (TrustStores result)) @
      exporterMetrics c (time_Now env) (time_Since env (time_Now env))
        (list_all (\<lambda>ts. storeError env c cfg ts = None) (TrustStores result))\<rparr>))"
  using scrape_result[OF con rc, of c] cfg res
  by (simp add: collected_def cycleSuccess_def)

lemma cycleSuccess_iff:
  assumes con: "pem_Decode_consumes env" and rc: "responses_complete env"
  shows "cycleSuccess env c \<longleftrightarrow> cycleSucceeds env c"
proof -
  from rc have loc: "\<forall>svc arn bundle. GetTrustStoreCaCertificatesBundle env svc arn = Inr bundle
        \<longrightarrow> Location bundle \<noteq> None"
    and dts: "\<And>svc input out. DescribeTrustStores env svc input = Inr out
        \<Longrightarrow> list_all TrustStore_complete (TrustStores out)"
    by (simp_all add: responses_complete_def)
  have stores: "list_all (\<lambda>ts. storeError env c cfg ts = None) tss \<longleftrightarrow> list_all (storeSucceeds env cfg) tss"
    if "list_all TrustStore_complete tss" for cfg tss
    using that
  proof (induction tss)
    case Nil
    show ?case by simp
  next
    case (Cons ts tss)
    then show ?case using storeSucceeds_iff[OF con loc, of ts c cfg] by simp
  qed
  show ?thesis
  proof (cases "LoadDefaultConfig env (cfgOptsOf c)")
    case (Inl e)
    then show ?thesis by (simp add: cycleSuccess_def cycleSucceeds_def)
  next
    case (Inr cfg)
    note cfg = this
    show ?thesis
    proof (cases "DescribeTrustStores env cfg (inputOf c)")
      case (Inl e)
      with cfg show ?thesis by (simp add: cycleSuccess_def cycleSucceeds_def)
    next
      case (Inr out)
      with cfg stores[OF dts[OF Inr]] show ?thesis by (simp add: cycleSuccess_def cycleSucceeds_def)
    qed
  qed
qed

subsection \<open>Descriptors and families of samples\<close>

text \<open>The ten descriptors of \<open>New\<close> are pairwise different, so the descriptor of a sample tells its family, and every sample has as many label values as its descriptor has label names.\<close>

lemma collectorOf_fields [simp]:
  "region (collectorOf reg arns iv old) = reg"
  "trustStoreARNs (collectorOf reg arns iv old) = arns"
  "scrapeInterval (collectorOf reg arns iv old) = iv"
  "metrics (collectorOf reg arns iv old) = old"
  by (simp_all add: collectorOf_def newCollector_def)

lemma collectorOf_update [simp]:
  "(collectorOf reg arns iv old)\<lparr>metrics := ms\<rparr> = collectorOf reg arns iv ms"
  by (simp add: collectorOf_def)

lemma collectorOf_descs:
  "distinct (map (\<lambda>f. f (collectorOf reg arns iv old))
     [collectorSuccess, certificateInfo, certificateNotBefore, certificateExpiry,
      trustStoreInfo, trustStoreCertificates, trustStoreRevokedEntries,
      exporterLastScrapeTimestamp, exporterScrapeDurationSeconds, exporterScrapeInterval])"
  by (simp add: collectorOf_def newCollector_def NewDesc_def BuildFQName_def namespace_def)

lemma levels_disjoint:
  assumes "c = collectorOf reg arns iv old"
  shows "exporterLevel c m \<Longrightarrow> \<not> trustStoreLevel c m" "exporterLevel c m \<Longrightarrow> \<not> certificateLevel c m"
    "trustStoreLevel c m \<Longrightarrow> \<not> certificateLevel c m"
  using collectorOf_descs[of reg arns iv old] assms
  by (auto simp: exporterLevel_def trustStoreLevel_def certificateLevel_def)

lemma factMetrics_level:
  "m \<in> set (factMetrics c arn facts) \<Longrightarrow> certificateLevel c m"
  by (auto simp: factMetrics_def certificateMetrics_def certificateLevel_def MustNewConstMetric_def)

lemma trustStoreMetrics_level:
  "m \<in> set (trustStoreMetrics c arn name n r) \<Longrightarrow> trustStoreLevel c m"
  by (auto simp: trustStoreMetrics_def trustStoreLevel_def MustNewConstMetric_def)

lemma contribution_level:
  assumes con: "pem_Decode_consumes env" and m: "m \<in> set (contribution env c svc ts)"
  shows "trustStoreLevel c m \<or> certificateLevel c m"
proof (cases "TrustStore_complete ts")
  case True
  then obtain arn name n r where f: "TrustStoreArn ts = Some arn" "Name ts = Some name"
    "NumberOfCaCertificates ts = Some n" "TotalRevokedEntries ts = Some r"
    by (auto simp: TrustStore_complete_def)
  from contribution_form[OF con f, of c svc] m show ?thesis
    by (auto dest: factMetrics_level trustStoreMetrics_level)
next
  case False
  then have "collectTrustStoreMetrics env c svc ts [] = Some Panic"
    by (auto simp: TrustStore_complete_def collectTrustStoreMetrics_def Let_def split: option.splits)
  with m show ?thesis by (simp add: contribution_def)
qed

lemma collected_level:
  assumes con: "pem_Decode_consumes env" and m: "m \<in> set (collected env c)"
  shows "trustStoreLevel c m \<or> certificateLevel c m"
  using m contribution_level[OF con]
  by (auto simp: collected_def split: sum.splits)

lemma exporterMetrics_level:
  "m \<in> set (exporterMetrics c now d s) \<Longrightarrow> exporterLevel c m"
  by (auto simp: exporterMetrics_def exporterLevel_def MustNewConstMetric_def split: if_splits)

lemma filter_all: "(\<And>x. x \<in> set xs \<Longrightarrow> P x) \<Longrightarrow> filter P xs = xs"
  by (induction xs) auto

lemma filter_none: "(\<And>x. x \<in> set xs \<Longrightarrow> \<not> P x) \<Longrightarrow> filter P xs = []"
  by (induction xs) auto

lemma collected_filters:
  assumes con: "pem_Decode_consumes env" and c: "c = collectorOf reg arns iv old"
  shows "filter (exporterLevel c) (collected env c) = []"
  using collected_level[OF con, of _ c] levels_disjoint(1,2)[OF c]
  by (intro filter_none) blast

lemma exporter_filters:
  assumes c: "c = collectorOf reg arns iv old"
  shows "filter (exporterLevel c) (exporterMetrics c now d s) = exporterMetrics c now d s"
    "filter (trustStoreLevel c) (exporterMetrics c now d s) = []"
    "filter (certificateLevel c) (exporterMetrics c now d s) = []"
  using exporterMetrics_level[of _ c now d s] levels_disjoint(1,2)[OF c]
  by (blast intro: filter_all filter_none)+

lemma exporterMetrics_descs:
  "map desc (exporterMetrics c now d s) =
     [exporterLastScrapeTimestamp c, exporterScrapeDurationSeconds c, exporterScrapeInterval c,
      collectorSuccess c]"
  by (simp add: exporterMetrics_def MustNewConstMetric_def)

lemma exporter_descs_distinct:
  assumes c: "c = collectorOf reg arns iv old"
  shows "distinct [exporterLastScrapeTimestamp c, exporterScrapeDurationSeconds c,
     exporterScrapeInterval c, collectorSuccess c]"
  using collectorOf_descs[of reg arns iv old] c by auto

lemma single_desc_filters:
  assumes con: "pem_Decode_consumes env" and c: "c = collectorOf reg arns iv old"
    and d: "d \<in> set [exporterLastScrapeTimestamp c, exporterScrapeDurationSeconds c,
       exporterScrapeInterval c, collectorSuccess c]"
  shows "filter (\<lambda>m. desc m = d) (collected env c) = []"
proof (rule filter_none)
  fix m assume m: "m \<in> set (collected env c)"
  from collected_level[OF con m] levels_disjoint(1,2)[OF c, of m]
  have "\<not> exporterLevel c m" by blast
  with d show "desc m \<noteq> d" by (auto simp: exporterLevel_def)
qed

lemma exporter_single_filters:
  assumes c: "c = collectorOf reg arns iv old"
  shows
    "filter (\<lambda>m. desc m = exporterLastScrapeTimestamp c) (exporterMetrics c now d s) =
       [MustNewConstMetric (exporterLastScrapeTimestamp c) GaugeValue (float64 (Unix now)) []]"
    "filter (\<lambda>m. desc m = exporterScrapeDurationSeconds c) (exporterMetrics c now d s) =
       [MustNewConstMetric (exporterScrapeDurationSeconds c) GaugeValue (Seconds d) []]"
    "filter (\<lambda>m. desc m = exporterScrapeInterval c) (exporterMetrics c now d s) =
       [MustNewConstMetric (exporterScrapeInterval c) GaugeValue (Seconds (scrapeInterval c)) []]"
    "filter (\<lambda>m. desc m = collectorSuccess c) (exporterMetrics c now d s) =
       [MustNewConstMetric (collectorSuccess c) GaugeValue (float64 (if s then 1 else 0)) []]"
  using exporter_descs_distinct[OF c]
  by (auto simp: exporterMetrics_def MustNewConstMetric_def)

lemma info_label:
  assumes con: "pem_Decode_consumes env" and c: "c = collectorOf reg arns iv old"
    and m: "m \<in> set (contribution env c svc ts)" and d: "desc m = trustStoreInfo c"
  shows "\<exists>arn name. labelValues m = [arn, name, reg]"
proof (cases "TrustStore_complete ts")
  case True
  then obtain arn name n r where f: "TrustStoreArn ts = Some arn" "Name ts = Some name"
    "NumberOfCaCertificates ts = Some n" "TotalRevokedEntries ts = Some r"
    by (auto simp: TrustStore_complete_def)
  from d have tl: "trustStoreLevel c m" by (simp add: trustStoreLevel_def)
  with levels_disjoint(3)[OF c] have "\<not> certificateLevel c m" by blast
  with factMetrics_level have nf: "m \<notin> set (factMetrics c arn facts)" for facts by blast
  from contribution_form[OF con f, of c svc] m nf
  have "m \<in> set (trustStoreMetrics c arn name n r)" by auto
  moreover have "trustStoreInfo c \<noteq> trustStoreCertificates c" "trustStoreInfo c \<noteq> trustStoreRevokedEntries c"
    using collectorOf_descs[of reg arns iv old] c by auto
  ultimately have "m = MustNewConstMetric (trustStoreInfo c) GaugeValue (float64 1) [arn, name, region c]"
    using d by (auto simp: trustStoreMetrics_def MustNewConstMetric_def)
  with c show ?thesis by (simp add: MustNewConstMetric_def)
next
  case False
  then have "collectTrustStoreMetrics env c svc ts [] = Some Panic"
    by (auto simp: TrustStore_complete_def collectTrustStoreMetrics_def Let_def split: option.splits)
  with m show ?thesis by (simp add: contribution_def)
qed

lemma certificateMetrics_metrics_update [simp]:
  "certificateMetrics (c\<lparr>metrics := old\<rparr>) arn cert k = certificateMetrics c arn cert k"
  by (simp add: certificateMetrics_def)

lemma factMetrics_metrics_update [simp]:
  "factMetrics (c\<lparr>metrics := old\<rparr>) arn facts = factMetrics c arn facts"
  by (simp add: factMetrics_def)

lemma collectorOf_variableLabels:
  assumes "c = collectorOf reg arns iv old"
  shows "length (variableLabels (trustStoreInfo c)) = 3"
    "length (variableLabels (trustStoreCertificates c)) = 1"
    "length (variableLabels (trustStoreRevokedEntries c)) = 1"
    "length (variableLabels (certificateInfo c)) = 6"
    "length (variableLabels (certificateNotBefore c)) = 3"
    "length (variableLabels (certificateExpiry c)) = 3"
    "length (variableLabels (exporterLastScrapeTimestamp c)) = 0"
    "length (variableLabels (exporterScrapeDurationSeconds c)) = 0"
    "length (variableLabels (exporterScrapeInterval c)) = 0"
    "length (variableLabels (collectorSuccess c)) = 0"
  using assms by (simp_all add: collectorOf_def newCollector_def NewDesc_def)

lemma collected_label_count:
  assumes con: "pem_Decode_consumes env" and c: "c = collectorOf reg arns iv old"
    and m: "m \<in> set (collected env c @ exporterMetrics c now d s)"
  shows "length (labelValues m) = length (variableLabels (desc m))"
proof -
  note vl = collectorOf_variableLabels[OF c]
  have ex: "length (labelValues x) = length (variableLabels (desc x))"
    if "x \<in> set (exporterMetrics c now d s)" for x
    using that vl by (auto simp: exporterMetrics_def MustNewConstMetric_def split: if_splits)
  have ts: "length (labelValues x) = length (variableLabels (desc x))"
    if "x \<in> set (trustStoreMetrics c arn name n r)" for x arn name n r
    using that vl by (auto simp: trustStoreMetrics_def MustNewConstMetric_def)
  have ce: "length (labelValues x) = length (variableLabels (desc x))"
    if "x \<in> set (factMetrics c arn facts)" for x arn facts
    using that vl by (auto simp: factMetrics_def certificateMetrics_def MustNewConstMetric_def)
  have co: "length (labelValues x) = length (variableLabels (desc x))"
    if x: "x \<in> set (contribution env c svc t)" for x svc t
  proof (cases "TrustStore_complete t")
    case True
    then obtain arn name n r where f: "TrustStoreArn t = Some arn" "Name t = Some name"
      "NumberOfCaCertificates t = Some n" "TotalRevokedEntries t = Some r"
      by (auto simp: TrustStore_complete_def)
    from contribution_form[OF con f, of c svc] x ts ce show ?thesis by auto
  next
    case False
    then have "collectTrustStoreMetrics env c svc t [] = Some Panic"
      by (auto simp: TrustStore_complete_def collectTrustStoreMetrics_def Let_def split: option.splits)
    with x show ?thesis by (simp add: contribution_def)
  qed
  from m consider "m \<in> set (collected env c)" | "m \<in> set (exporterMetrics c now d s)" by auto
  then show ?thesis
  proof cases
    case 1
    then obtain svc t where "m \<in> set (contribution env c svc t)"
      by (auto simp: collected_def split: sum.splits)
    then show ?thesis by (rule co)
  next
    case 2
    then show ?thesis by (rule ex)
  qed
qed

subsection \<open>The example environment\<close>

text \<open>The example decoder consumes its input, the example responses are complete, and the example cycles evaluate as follows.\<close>

lemma exEnv_fields [simp]:
  "time_Now exEnv = 1700000000123456789"
  "time_Since exEnv t = 2500000000"
  "LoadDefaultConfig exEnv opts = Inr \<lparr>Region = (case opts of [WithRegion r] \<Rightarrow> r | _ \<Rightarrow> ''eu-west-1'')\<rparr>"
  "DescribeTrustStores exEnv svc input = Inr \<lparr>TrustStores = [exStoreA, exStoreB]\<rparr>"
  "GetTrustStoreCaCertificatesBundle exEnv svc arn =
     (if arn = Some ''arn:A'' then Inl (LibraryError ''AccessDenied'')
      else Inr \<lparr>Location = Some ''https://bundles.example/B''\<rparr>)"
  "http_Get exEnv loc = Inr \<lparr>Body = Inr [1, 1, 2, 7, 1, 2, 0]\<rparr>"
  "pem_Decode exEnv = exDecode"
  "x509_ParseCertificate exEnv = exParse"
  by (simp_all add: exEnv_def)

lemma exEnv_consumes: "pem_Decode_consumes exEnv"
  unfolding pem_Decode_consumes_def
proof (intro allI impI)
  fix pemData b rest
  assume "pem_Decode exEnv pemData = (Some b, rest)"
  then show "length rest < length pemData"
    by (cases pemData rule: exDecode.cases) (auto split: if_splits)
qed

lemma exEnv_complete: "responses_complete exEnv"
  by (auto simp: responses_complete_def TrustStore_complete_def exStoreA_def exStoreB_def
      split: if_splits)

lemma exModulus_BitLen: "BitLen exModulus = 2048"
  using BitLen_bounds[of 2047 exModulus] by (simp add: exModulus_def)

lemma exCert_fields [simp]:
  "SerialNumber (exCertificate s k) = s"
  "Issuer (exCertificate s k) = ''CN=Example Root''"
  "Subject (exCertificate s k) = ''CN=Example CA''"
  "SignatureAlgorithm (exCertificate s k) = ''SHA256-RSA''"
  "PublicKey (exCertificate s k) = k"
  "NotBefore (exCertificate s k) = 1600000000000000000"
  "NotAfter (exCertificate s k) = 1900000000000000000"
  by (simp_all add: exCertificate_def)

lemma exCert_keys [simp]:
  "PublicKey exCertRSA = rsa_PublicKey exModulus"
  "PublicKey exCertEC = ecdsa_PublicKey 256"
  "PublicKey exCertOther = other_PublicKey"
  by (simp_all add: exCertRSA_def exCertEC_def exCertOther_def)

lemma exEnvOk_fields [simp]:
  "time_Now exEnvOk = 1700000000123456789"
  "time_Since exEnvOk t = 2500000000"
  "LoadDefaultConfig exEnvOk opts = Inr \<lparr>Region = (case opts of [WithRegion r] \<Rightarrow> r | _ \<Rightarrow> ''eu-west-1'')\<rparr>"
  "DescribeTrustStores exEnvOk svc input = Inr \<lparr>TrustStores = [exStoreA, exStoreB]\<rparr>"
  "GetTrustStoreCaCertificatesBundle exEnvOk svc arn = Inr \<lparr>Location = Some ''https://bundles.example/B''\<rparr>"
  "http_Get exEnvOk loc = Inr \<lparr>Body = Inr [1, 1, 2, 7, 1, 2, 0]\<rparr>"
  "pem_Decode exEnvOk = exDecode"
  "x509_ParseCertificate exEnvOk = exParse"
  by (simp_all add: exEnvOk_def exEnv_def)

lemma exEnvNoConfig_fields [simp]:
  "time_Now exEnvNoConfig = 1700000000123456789"
  "time_Since exEnvNoConfig t = 2500000000"
  "LoadDefaultConfig exEnvNoConfig opts = Inl (LibraryError ''no credentials'')"
  by (simp_all add: exEnvNoConfig_def exEnv_def)

lemma exEnvNoList_fields [simp]:
  "time_Now exEnvNoList = 1700000000123456789"
  "time_Since exEnvNoList t = 2500000000"
  "LoadDefaultConfig exEnvNoList opts = Inr \<lparr>Region = (case opts of [WithRegion r] \<Rightarrow> r | _ \<Rightarrow> ''eu-west-1'')\<rparr>"
  "DescribeTrustStores exEnvNoList svc input = Inl (LibraryError ''AccessDenied'')"
  by (simp_all add: exEnvNoList_def exEnv_def)

lemma exEnvOk_consumes: "pem_Decode_consumes exEnvOk"
  using exEnv_consumes by (simp add: pem_Decode_consumes_def)

lemma exEnvOk_complete: "responses_complete exEnvOk"
  by (simp add: responses_complete_def TrustStore_complete_def exStoreA_def exStoreB_def)

lemma exStream:
  "pem_stream exEnv [1, 1, 2, 7, 1, 2, 0]
     [\<lparr>Type = ''CERTIFICATE'', Bytes = [1]\<rparr>, \<lparr>Type = ''PRIVATE KEY'', Bytes = [7]\<rparr>,
      \<lparr>Type = ''CERTIFICATE'', Bytes = [2]\<rparr>]"
  "pem_stream exEnvOk [1, 1, 2, 7, 1, 2, 0]
     [\<lparr>Type = ''CERTIFICATE'', Bytes = [1]\<rparr>, \<lparr>Type = ''PRIVATE KEY'', Bytes = [7]\<rparr>,
      \<lparr>Type = ''CERTIFICATE'', Bytes = [2]\<rparr>]"
  by (simp_all add: pem_stream_Cons pem_stream_Nil)

lemma exCollector_fields [simp]:
  "region exCollector = []" "trustStoreARNs exCollector = []"
  "scrapeInterval exCollector = 3600000000000" "metrics exCollector = []"
  "cfgOptsOf exCollector = []" "inputOf exCollector = None"
  by (simp_all add: exCollector_def cfgOptsOf_def inputOf_def)

lemma ex_cycleSucceeds:
  "\<not> cycleSucceeds exEnv exCollector" "cycleSucceeds exEnvOk exCollector"
proof -
  have "\<not> storeSucceeds exEnv \<lparr>Region = ''eu-west-1''\<rparr> exStoreA"
    by (simp add: storeSucceeds_def bundleBytes_def exStoreA_def)
  then show "\<not> cycleSucceeds exEnv exCollector"
    by (simp add: cycleSucceeds_def)
  have bb: "bundleBytes exEnvOk svc arn = Returned (Inr [1, 1, 2, 7, 1, 2, 0])" for svc arn
    by (simp add: bundleBytes_def ioutil_ReadAll_def)
  have ok: "storeSucceeds exEnvOk svc ts" if "TrustStoreArn ts = Some arn" for svc ts arn
    unfolding storeSucceeds_def
    using that bb[of svc arn] exStream(2) by (intro exI[of _ arn] exI conjI) (assumption | simp)+
  have "storeSucceeds exEnvOk \<lparr>Region = ''eu-west-1''\<rparr> exStoreA"
    "storeSucceeds exEnvOk \<lparr>Region = ''eu-west-1''\<rparr> exStoreB"
    by (rule ok, simp add: exStoreA_def exStoreB_def)+
  then show "cycleSucceeds exEnvOk exCollector"
    by (simp add: cycleSucceeds_def)
qed

lemma exStoreA_result:
  "storeError exEnv c svc exStoreA = Some (LibraryError ''AccessDenied'')"
  "contribution exEnv c svc exStoreA = trustStoreMetrics c ''arn:A'' ''A'' 3 0"
  using store_result(1)[of exStoreA "''arn:A''" "''A''" 3 0 exEnv svc "LibraryError ''AccessDenied''" c]
  by (simp_all add: exStoreA_def bundleBytes_def)

lemma exStoreB_result:
  "storeError exEnv c svc exStoreB = None"
  "contribution exEnv c svc exStoreB =
     trustStoreMetrics c ''arn:B'' ''B'' 2 1 @ certificateMetrics c ''arn:B'' exCertRSA 2048 @
     certificateMetrics c ''arn:B'' exCertEC 256"
  using store_result(2)[of exStoreB "''arn:B''" "''B''" 2 1 exEnv svc "[1, 1, 2, 7, 1, 2, 0]" _ c,
      OF _ _ _ _ _ exStream(1)]
  by (simp_all add: exStoreB_def bundleBytes_def ioutil_ReadAll_def factMetrics_def exModulus_BitLen)

lemma ex_scrape:
  "scrape exEnv exCollector = Some (Returned (exCollector\<lparr>metrics :=
     trustStoreMetrics exCollector ''arn:A'' ''A'' 3 0 @
     (trustStoreMetrics exCollector ''arn:B'' ''B'' 2 1 @
      certificateMetrics exCollector ''arn:B'' exCertRSA 2048 @
      certificateMetrics exCollector ''arn:B'' exCertEC 256) @
     exporterMetrics exCollector 1700000000123456789 2500000000 False\<rparr>))"
  using scrape_stores[OF exEnv_consumes exEnv_complete, of exCollector
      "\<lparr>Region = ''eu-west-1''\<rparr>" "\<lparr>TrustStores = [exStoreA, exStoreB]\<rparr>"]
  by (simp add: exStoreA_result exStoreB_result)

lemma exEnvMalformed_fields [simp]:
  "time_Now exEnvMalformed = 1700000000123456789"
  "time_Since exEnvMalformed t = 2500000000"
  "LoadDefaultConfig exEnvMalformed opts = Inr \<lparr>Region = (case opts of [WithRegion r] \<Rightarrow> r | _ \<Rightarrow> ''eu-west-1'')\<rparr>"
  "DescribeTrustStores exEnvMalformed svc input = Inr \<lparr>TrustStores = [exStoreA, exStoreB]\<rparr>"
  "GetTrustStoreCaCertificatesBundle exEnvMalformed svc arn = Inr \<lparr>Location = Some ''https://bundles.example/B''\<rparr>"
  "http_Get exEnvMalformed loc = Inr \<lparr>Body = Inr [1, 9, 1, 1]\<rparr>"
  "pem_Decode exEnvMalformed = exDecode"
  "x509_ParseCertificate exEnvMalformed = exParse"
  by (simp_all add: exEnvMalformed_def exEnvOk_def exEnv_def)

lemma exEnvMalformed_consumes: "pem_Decode_consumes exEnvMalformed"
  using exEnv_consumes by (simp add: pem_Decode_consumes_def)

lemma exEnvMalformed_complete: "responses_complete exEnvMalformed"
  by (simp add: responses_complete_def TrustStore_complete_def exStoreA_def exStoreB_def)

lemma exEnvMalformed_stream:
  "pem_stream exEnvMalformed [1, 9, 1, 1]
     [\<lparr>Type = ''CERTIFICATE'', Bytes = [9]\<rparr>, \<lparr>Type = ''CERTIFICATE'', Bytes = [1]\<rparr>]"
  by (simp add: pem_stream_Cons pem_stream_Nil)

lemma exEnvMalformed_stores:
  "storeError exEnvMalformed c svc exStoreA = None"
  "storeError exEnvMalformed c svc exStoreB = None"
  using store_result(2)[of exStoreA "''arn:A''" "''A''" 3 0 exEnvMalformed svc "[1, 9, 1, 1]" _ c,
      OF _ _ _ _ _ exEnvMalformed_stream]
    store_result(2)[of exStoreB "''arn:B''" "''B''" 2 1 exEnvMalformed svc "[1, 9, 1, 1]" _ c,
      OF _ _ _ _ _ exEnvMalformed_stream]
  by (simp_all add: exStoreA_def exStoreB_def bundleBytes_def ioutil_ReadAll_def)

section \<open>The claims\<close>

text \<open>
  Claim C1, as the specification states it, fails: in the example environment the bundle
  call fails for trust store A, \<open>collectTrustStoreMetrics\<close> returns the error, and the
  three info and count samples of A are the first three samples of the published
  snapshot.
\<close>

theorem failed_store_samples_counterexample:
  "collectTrustStoreMetrics exEnv exCollector \<lparr>Region = ''eu-west-1''\<rparr> exStoreA [] =
     Some (Returned (Some (LibraryError ''AccessDenied''),
       trustStoreMetrics exCollector ''arn:A'' ''A'' 3 0)) \<and>
   take 3 (published (scrape exEnv exCollector)) = trustStoreMetrics exCollector ''arn:A'' ''A'' 3 0 \<and>
   MustNewConstMetric (trustStoreInfo exCollector) GaugeValue (float64 1) [''arn:A'', ''A'', []]
     \<in> set (published (scrape exEnv exCollector))"
proof -
  have "collectTrustStoreMetrics exEnv exCollector \<lparr>Region = ''eu-west-1''\<rparr> exStoreA [] =
     Some (Returned (Some (LibraryError ''AccessDenied''),
       trustStoreMetrics exCollector ''arn:A'' ''A'' 3 0))"
    using bundleBytes_collect[of exStoreA "''arn:A''" "''A''" 3 0 exEnv exCollector
        "\<lparr>Region = ''eu-west-1''\<rparr>" "[]"]
    by (simp add: exStoreA_def bundleBytes_def)
  moreover have "published (scrape exEnv exCollector) =
     trustStoreMetrics exCollector ''arn:A'' ''A'' 3 0 @
     (trustStoreMetrics exCollector ''arn:B'' ''B'' 2 1 @
      certificateMetrics exCollector ''arn:B'' exCertRSA 2048 @
      certificateMetrics exCollector ''arn:B'' exCertEC 256) @
     exporterMetrics exCollector 1700000000123456789 2500000000 False"
    by (simp add: ex_scrape published_def)
  ultimately show ?thesis by (simp add: trustStoreMetrics_def)
qed

text \<open>
  Claim C1, amended. When \<open>collectTrustStoreMetrics\<close> returns an error for an enumerated
  trust store, the cycle publishes a snapshot with success 0 that is made of the samples
  of every enumerated trust store, in order, and the four exporter samples. The samples
  of the failed trust store are its three info and count samples followed by the samples
  of the certificates extracted before the failure: none when the bundle-location call,
  the HTTP fetch or the body read fails, and those before the certificate with the
  unrecognized key kind otherwise. What each trust store adds does not depend on the
  samples collected before it.
\<close>

theorem failed_store_keeps_its_samples:
  assumes con: "pem_Decode_consumes env" and rc: "responses_complete env"
    and cfg: "LoadDefaultConfig env (cfgOptsOf c) = Inr cfg"
    and res: "DescribeTrustStores env cfg (inputOf c) = Inr result"
    and ts: "ts \<in> set (TrustStores result)"
    and err: "storeError env c cfg ts = Some err"
  shows "\<exists>c' arn name n r facts.
     scrape env c = Some (Returned c') \<and>
     metrics c' = concat (map (contribution env c cfg) (TrustStores result)) @
       exporterMetrics c (time_Now env) (time_Since env (time_Now env)) False \<and>
     TrustStoreArn ts = Some arn \<and> Name ts = Some name \<and>
     NumberOfCaCertificates ts = Some n \<and> TotalRevokedEntries ts = Some r \<and>
     contribution env c cfg ts = trustStoreMetrics c arn name n r @ factMetrics c arn facts \<and>
     (bundleBytes env cfg arn = Returned (Inl err) \<and> facts = [] \<or>
      (\<exists>pemData blocks. bundleBytes env cfg arn = Returned (Inr pemData) \<and>
         pem_stream env pemData blocks \<and> extractFacts env blocks = (Some err, facts))) \<and>
     list_all (\<lambda>t. \<forall>ms. collectTrustStoreMetrics env c cfg t ms =
       Some (Returned (storeError env c cfg t, ms @ contribution env c cfg t))) (TrustStores result)"
proof -
  from rc have loc: "\<forall>svc arn bundle. GetTrustStoreCaCertificatesBundle env svc arn = Inr bundle
        \<longrightarrow> Location bundle \<noteq> None"
    and dts: "list_all TrustStore_complete (TrustStores result)"
    using res by (simp_all add: responses_complete_def)
  from dts ts have "TrustStore_complete ts" by (simp add: list_all_iff)
  then obtain arn name n r where f: "TrustStoreArn ts = Some arn" "Name ts = Some name"
    "NumberOfCaCertificates ts = Some n" "TotalRevokedEntries ts = Some r"
    by (auto simp: TrustStore_complete_def)
  from ts err have s: "list_all (\<lambda>ts. storeError env c cfg ts = None) (TrustStores result) = False"
    by (auto simp: list_all_iff)
  let ?ms = "concat (map (contribution env c cfg) (TrustStores result)) @
       exporterMetrics c (time_Now env) (time_Since env (time_Now env)) False"
  have r: "scrape env c = Some (Returned (c\<lparr>metrics := ?ms\<rparr>))"
    using scrape_stores[OF con rc cfg res] by (simp only: s)
  have m: "metrics (c\<lparr>metrics := ?ms\<rparr>) = ?ms" by simp
  from contribution_complete[OF con loc f, of cfg c] err
  have "\<exists>facts. contribution env c cfg ts = trustStoreMetrics c arn name n r @ factMetrics c arn facts \<and>
     (bundleBytes env cfg arn = Returned (Inl err) \<and> facts = [] \<or>
      (\<exists>pemData blocks. bundleBytes env cfg arn = Returned (Inr pemData) \<and>
         pem_stream env pemData blocks \<and> extractFacts env blocks = (Some err, facts)))"
  proof (elim disjE exE conjE)
    fix e
    assume "bundleBytes env cfg arn = Returned (Inl e)" "storeError env c cfg ts = Some e"
      "contribution env c cfg ts = trustStoreMetrics c arn name n r"
    with err show ?thesis by (intro exI[of _ "[]"]) simp
  next
    fix pemData blocks
    assume a: "bundleBytes env cfg arn = Returned (Inr pemData)" "pem_stream env pemData blocks"
      "storeError env c cfg ts = fst (extractFacts env blocks)"
      "contribution env c cfg ts =
         trustStoreMetrics c arn name n r @ factMetrics c arn (snd (extractFacts env blocks))"
    with err have "extractFacts env blocks = (Some err, snd (extractFacts env blocks))"
      by (simp add: prod_eq_iff)
    with a show ?thesis by (intro exI[of _ "snd (extractFacts env blocks)"]) blast
  qed
  then obtain facts where
    fa: "contribution env c cfg ts = trustStoreMetrics c arn name n r @ factMetrics c arn facts"
      "bundleBytes env cfg arn = Returned (Inl err) \<and> facts = [] \<or>
      (\<exists>pemData blocks. bundleBytes env cfg arn = Returned (Inr pemData) \<and>
         pem_stream env pemData blocks \<and> extractFacts env blocks = (Some err, facts))"
    by blast
  from r m f fa stores_collect[OF con rc res, of c] show ?thesis by blast
qed

theorem failed_store_keeps_its_samples_witness:
  "\<exists>c' arn name n r facts.
     scrape exEnv exCollector = Some (Returned c') \<and>
     metrics c' =
       trustStoreMetrics exCollector ''arn:A'' ''A'' 3 0 @
       (trustStoreMetrics exCollector ''arn:B'' ''B'' 2 1 @
        certificateMetrics exCollector ''arn:B'' exCertRSA 2048 @
        certificateMetrics exCollector ''arn:B'' exCertEC 256) @
       exporterMetrics exCollector 1700000000123456789 2500000000 False \<and>
     TrustStoreArn exStoreA = Some arn \<and> Name exStoreA = Some name \<and>
     NumberOfCaCertificates exStoreA = Some n \<and> TotalRevokedEntries exStoreA = Some r \<and>
     contribution exEnv exCollector \<lparr>Region = ''eu-west-1''\<rparr> exStoreA =
       trustStoreMetrics exCollector arn name n r @ factMetrics exCollector arn facts"
proof -
  have cfg: "LoadDefaultConfig exEnv (cfgOptsOf exCollector) = Inr \<lparr>Region = ''eu-west-1''\<rparr>"
    and res: "DescribeTrustStores exEnv \<lparr>Region = ''eu-west-1''\<rparr> (inputOf exCollector)
      = Inr \<lparr>TrustStores = [exStoreA, exStoreB]\<rparr>"
    and ts: "exStoreA \<in> set (TrustStores \<lparr>TrustStores = [exStoreA, exStoreB]\<rparr>)"
    by simp_all
  from failed_store_keeps_its_samples[OF exEnv_consumes exEnv_complete cfg res ts exStoreA_result(1)]
  show ?thesis by (simp add: exStoreA_result exStoreB_result) blast
qed

text \<open>
  Claim C3. Every cycle of a collector made by \<open>New\<close> publishes a snapshot (given that
  \<open>pem.Decode\<close> consumes its input and the API responses carry the fields the source
  dereferences), whatever the configuration, enumeration and per trust store calls
  return; its exporter-level samples are exactly the four samples of last-scrape
  timestamp, scrape duration, scrape interval and collector success, in this order, and
  their four descriptors are pairwise different, so each occurs exactly once.
\<close>

theorem exporter_samples_exactly_once:
  assumes "pem_Decode_consumes env" and "responses_complete env"
    and "c = collectorOf reg arns iv old"
  shows "\<exists>c' success. scrape env c = Some (Returned c') \<and>
     filter (exporterLevel c) (metrics c') =
       exporterMetrics c (time_Now env) (time_Since env (time_Now env)) success \<and>
     map desc (filter (exporterLevel c) (metrics c')) =
       [exporterLastScrapeTimestamp c, exporterScrapeDurationSeconds c, exporterScrapeInterval c,
        collectorSuccess c] \<and>
     distinct [exporterLastScrapeTimestamp c, exporterScrapeDurationSeconds c,
       exporterScrapeInterval c, collectorSuccess c]"
proof -
  let ?ex = "exporterMetrics c (time_Now env) (time_Since env (time_Now env)) (cycleSuccess env c)"
  let ?c' = "c\<lparr>metrics := collected env c @ ?ex\<rparr>"
  have r: "scrape env c = Some (Returned ?c')"
    by (rule scrape_result[OF assms(1,2)])
  have f: "filter (exporterLevel c) (metrics ?c') = ?ex"
    by (simp add: collected_filters[OF assms(1,3)] exporter_filters(1)[OF assms(3)])
  from r f exporterMetrics_descs[of c] exporter_descs_distinct[OF assms(3)]
  show ?thesis by (metis (no_types, lifting))
qed

theorem exporter_samples_exactly_once_witness:
  "\<exists>c' success. scrape exEnv exCollector = Some (Returned c') \<and>
     filter (exporterLevel exCollector) (metrics c') =
       exporterMetrics exCollector 1700000000123456789 2500000000 success \<and>
     map desc (filter (exporterLevel exCollector) (metrics c')) =
       [exporterLastScrapeTimestamp exCollector, exporterScrapeDurationSeconds exCollector,
        exporterScrapeInterval exCollector, collectorSuccess exCollector] \<and>
     distinct [exporterLastScrapeTimestamp exCollector, exporterScrapeDurationSeconds exCollector,
       exporterScrapeInterval exCollector, collectorSuccess exCollector]"
  using exporter_samples_exactly_once[OF exEnv_consumes exEnv_complete exCollector_def]
  by simp

text \<open>
  Claim C4. When \<open>collectTrustStoreMetrics\<close> returns an error for one of the enumerated
  trust stores, the cycle still publishes: the success sample is 0, and the snapshot
  holds the samples of the trust stores before the failed one, those of the failed one,
  and those of every trust store after it, each of which returns what it returns on its
  own, whatever was collected before.
\<close>

theorem failed_store_does_not_stop_the_cycle:
  assumes con: "pem_Decode_consumes env" and rc: "responses_complete env"
    and cfg: "LoadDefaultConfig env (cfgOptsOf c) = Inr cfg"
    and res: "DescribeTrustStores env cfg (inputOf c) = Inr result"
    and ts: "TrustStores result = before @ ts # after"
    and err: "storeError env c cfg ts = Some err"
  shows "\<exists>c'. scrape env c = Some (Returned c') \<and>
     metrics c' = concat (map (contribution env c cfg) before) @ contribution env c cfg ts @
       concat (map (contribution env c cfg) after) @
       exporterMetrics c (time_Now env) (time_Since env (time_Now env)) False \<and>
     list_all (\<lambda>t. \<forall>ms. collectTrustStoreMetrics env c cfg t ms =
       Some (Returned (storeError env c cfg t, ms @ contribution env c cfg t))) after"
proof -
  from ts err have s: "list_all (\<lambda>ts. storeError env c cfg ts = None) (TrustStores result) = False"
    by simp
  let ?ms = "concat (map (contribution env c cfg) before) @ contribution env c cfg ts @
       concat (map (contribution env c cfg) after) @
       exporterMetrics c (time_Now env) (time_Since env (time_Now env)) False"
  have r: "scrape env c = Some (Returned (c\<lparr>metrics := ?ms\<rparr>))"
    using scrape_stores[OF con rc cfg res] by (simp add: s) (simp add: ts)
  have m: "metrics (c\<lparr>metrics := ?ms\<rparr>) = ?ms" by simp
  from stores_collect[OF con rc res, of c] ts
  have "list_all (\<lambda>t. \<forall>ms. collectTrustStoreMetrics env c cfg t ms =
       Some (Returned (storeError env c cfg t, ms @ contribution env c cfg t))) after"
    by simp
  with r m show ?thesis by blast
qed

theorem failed_store_does_not_stop_the_cycle_witness:
  "\<exists>c'. scrape exEnv exCollector = Some (Returned c') \<and>
     metrics c' =
       trustStoreMetrics exCollector ''arn:A'' ''A'' 3 0 @
       (trustStoreMetrics exCollector ''arn:B'' ''B'' 2 1 @
        certificateMetrics exCollector ''arn:B'' exCertRSA 2048 @
        certificateMetrics exCollector ''arn:B'' exCertEC 256) @
       exporterMetrics exCollector 1700000000123456789 2500000000 False \<and>
     (\<forall>ms. collectTrustStoreMetrics exEnv exCollector \<lparr>Region = ''eu-west-1''\<rparr> exStoreB ms =
        Some (Returned (None, ms @
          (trustStoreMetrics exCollector ''arn:B'' ''B'' 2 1 @
           certificateMetrics exCollector ''arn:B'' exCertRSA 2048 @
           certificateMetrics exCollector ''arn:B'' exCertEC 256))))"
proof -
  have cfg: "LoadDefaultConfig exEnv (cfgOptsOf exCollector) = Inr \<lparr>Region = ''eu-west-1''\<rparr>"
    and res: "DescribeTrustStores exEnv \<lparr>Region = ''eu-west-1''\<rparr> (inputOf exCollector)
      = Inr \<lparr>TrustStores = [exStoreA, exStoreB]\<rparr>"
    and ts: "TrustStores \<lparr>TrustStores = [exStoreA, exStoreB]\<rparr> = [] @ exStoreA # [exStoreB]"
    by simp_all
  from failed_store_does_not_stop_the_cycle[OF exEnv_consumes exEnv_complete cfg res ts
      exStoreA_result(1)]
  show ?thesis by (simp add: exStoreA_result exStoreB_result)
qed

text \<open>
  Claim C5. When the AWS configuration cannot be resolved, or the call that enumerates
  the trust stores fails, the cycle of a collector made by \<open>New\<close> publishes a snapshot
  that holds the four exporter samples and nothing else: no trust store sample, no
  certificate sample, and one collector success sample, of value 0.
\<close>

theorem failed_cycle_has_exporter_samples_only:
  assumes fail: "LoadDefaultConfig env (cfgOptsOf c) = Inl err \<or>
      (\<exists>cfg. LoadDefaultConfig env (cfgOptsOf c) = Inr cfg \<and>
         DescribeTrustStores env cfg (inputOf c) = Inl err)"
    and c: "c = collectorOf reg arns iv old"
  shows "\<exists>c'. scrape env c = Some (Returned c') \<and>
     metrics c' = exporterMetrics c (time_Now env) (time_Since env (time_Now env)) False \<and>
     filter (trustStoreLevel c) (metrics c') = [] \<and>
     filter (certificateLevel c) (metrics c') = [] \<and>
     filter (\<lambda>m. desc m = collectorSuccess c) (metrics c') =
       [MustNewConstMetric (collectorSuccess c) GaugeValue (float64 0) []]"
proof -
  let ?ex = "exporterMetrics c (time_Now env) (time_Since env (time_Now env)) False"
  from fail have "scrapeCollect env c = Some (Returned ([], False))"
    by (auto simp: scrapeCollect_def cfgOptsOf_def inputOf_def)
  then have r: "scrape env c = Some (Returned (c\<lparr>metrics := ?ex\<rparr>))"
    by (simp add: scrape_def Let_def)
  have "metrics (c\<lparr>metrics := ?ex\<rparr>) = ?ex" by simp
  with r exporter_filters(2,3)[OF c] exporter_single_filters(4)[OF c, of _ _ False]
  show ?thesis by simp
qed

theorem failed_cycle_has_exporter_samples_only_witness:
  "(\<exists>c'. scrape exEnvNoConfig exCollector = Some (Returned c') \<and>
     metrics c' = exporterMetrics exCollector 1700000000123456789 2500000000 False \<and>
     filter (trustStoreLevel exCollector) (metrics c') = [] \<and>
     filter (certificateLevel exCollector) (metrics c') = [] \<and>
     filter (\<lambda>m. desc m = collectorSuccess exCollector) (metrics c') =
       [MustNewConstMetric (collectorSuccess exCollector) GaugeValue (float64 0) []]) \<and>
   (\<exists>c'. scrape exEnvNoList exCollector = Some (Returned c') \<and>
     metrics c' = exporterMetrics exCollector 1700000000123456789 2500000000 False \<and>
     filter (trustStoreLevel exCollector) (metrics c') = [] \<and>
     filter (certificateLevel exCollector) (metrics c') = [] \<and>
     filter (\<lambda>m. desc m = collectorSuccess exCollector) (metrics c') =
       [MustNewConstMetric (collectorSuccess exCollector) GaugeValue (float64 0) []])"
proof -
  have a: "LoadDefaultConfig exEnvNoConfig (cfgOptsOf exCollector) = Inl (LibraryError ''no credentials'') \<or>
      (\<exists>cfg. LoadDefaultConfig exEnvNoConfig (cfgOptsOf exCollector) = Inr cfg \<and>
         DescribeTrustStores exEnvNoConfig cfg (inputOf exCollector) = Inl (LibraryError ''no credentials''))"
    by simp
  have b: "LoadDefaultConfig exEnvNoList (cfgOptsOf exCollector) = Inl (LibraryError ''AccessDenied'') \<or>
      (\<exists>cfg. LoadDefaultConfig exEnvNoList (cfgOptsOf exCollector) = Inr cfg \<and>
         DescribeTrustStores exEnvNoList cfg (inputOf exCollector) = Inl (LibraryError ''AccessDenied''))"
    by simp
  from failed_cycle_has_exporter_samples_only[OF a exCollector_def]
    failed_cycle_has_exporter_samples_only[OF b exCollector_def]
  show ?thesis by simp
qed

text \<open>
  Claim C6. Let a certificate block of a bundle parse, with no key of an unknown kind
  before it. If its key is an RSA key, the loop returns with a certificate info sample
  whose key length label is the decimal bit length of the modulus, ''2048'' for a
  modulus of 2048 bits. If it is an ECDSA key, the label is the decimal bit size of the
  curve, ''256'' for a curve of 256 bits. If it is of any other kind, the loop stops
  there and returns the error ``unknown public key type'' to its caller, with the
  samples of the certificates before it.
\<close>

theorem key_length_by_key_kind:
  assumes st: "pem_stream env pemData (pre @ b # post)"
    and pre: "fst (extractFacts env pre) = None"
    and b: "Type b = ''CERTIFICATE''"
    and cert: "x509_ParseCertificate env (Bytes b) = Inr cert"
  shows "(\<forall>N. PublicKey cert = rsa_PublicKey N \<longrightarrow>
            (\<exists>err out. pemLoop env c arn pemData ms = Some (err, out) \<and>
               MustNewConstMetric (certificateInfo c) GaugeValue (float64 1)
                 [arn, Itoa (SerialNumber cert), Issuer cert, Subject cert, SignatureAlgorithm cert,
                  Itoa (BitLen N)] \<in> set out) \<and>
            (2 ^ 2047 \<le> N \<and> N < 2 ^ 2048 \<longrightarrow> Itoa (BitLen N) = ''2048'')) \<and>
         (\<forall>BitSize. PublicKey cert = ecdsa_PublicKey BitSize \<longrightarrow>
            (\<exists>err out. pemLoop env c arn pemData ms = Some (err, out) \<and>
               MustNewConstMetric (certificateInfo c) GaugeValue (float64 1)
                 [arn, Itoa (SerialNumber cert), Issuer cert, Subject cert, SignatureAlgorithm cert,
                  Itoa BitSize] \<in> set out) \<and>
            (BitSize = 256 \<longrightarrow> Itoa BitSize = ''256'')) \<and>
         (PublicKey cert = other_PublicKey \<longrightarrow>
            pemLoop env c arn pemData ms =
              Some (Some (errors_New ''unknown public key type''),
                    ms @ factMetrics c arn (snd (extractFacts env pre))))"
proof -
  note loop = pemLoop_stream[OF st, of c arn ms]
  note app = extractFacts_append[OF pre, of "b # post"]
  have known: "\<exists>err out. pemLoop env c arn pemData ms = Some (err, out) \<and>
      MustNewConstMetric (certificateInfo c) GaugeValue (float64 1)
        [arn, Itoa (SerialNumber cert), Issuer cert, Subject cert, SignatureAlgorithm cert, Itoa k]
        \<in> set out"
    if k: "keyLength (PublicKey cert) = Inr k" for k
  proof -
    from k b cert have e: "snd (extractFacts env (pre @ b # post))
        = snd (extractFacts env pre) @ (cert, k) # snd (extractFacts env post)"
      by (simp add: app)
    show ?thesis
      by (simp add: loop e factMetrics_append factMetrics_Cons certificateMetrics_def)
  qed
  have rsa: "\<forall>N. PublicKey cert = rsa_PublicKey N \<longrightarrow>
            (\<exists>err out. pemLoop env c arn pemData ms = Some (err, out) \<and>
               MustNewConstMetric (certificateInfo c) GaugeValue (float64 1)
                 [arn, Itoa (SerialNumber cert), Issuer cert, Subject cert, SignatureAlgorithm cert,
                  Itoa (BitLen N)] \<in> set out) \<and>
            (2 ^ 2047 \<le> N \<and> N < 2 ^ 2048 \<longrightarrow> Itoa (BitLen N) = ''2048'')"
    using known by (auto simp: BitLen_2048)
  have ec: "\<forall>BitSize. PublicKey cert = ecdsa_PublicKey BitSize \<longrightarrow>
            (\<exists>err out. pemLoop env c arn pemData ms = Some (err, out) \<and>
               MustNewConstMetric (certificateInfo c) GaugeValue (float64 1)
                 [arn, Itoa (SerialNumber cert), Issuer cert, Subject cert, SignatureAlgorithm cert,
                  Itoa BitSize] \<in> set out) \<and>
            (BitSize = 256 \<longrightarrow> Itoa BitSize = ''256'')"
    using known by (auto simp: Itoa_256)
  have other: "PublicKey cert = other_PublicKey \<longrightarrow>
            pemLoop env c arn pemData ms =
              Some (Some (errors_New ''unknown public key type''),
                    ms @ factMetrics c arn (snd (extractFacts env pre)))"
    using b cert by (simp add: loop app)
  from rsa ec other show ?thesis by blast
qed

theorem key_length_by_key_kind_witness:
  "(\<exists>err out. pemLoop exEnv exCollector ''arn:B'' [1, 1, 2, 7, 1, 2, 0] [] = Some (err, out) \<and>
      MustNewConstMetric (certificateInfo exCollector) GaugeValue (float64 1)
        [''arn:B'', ''4097'', ''CN=Example Root'', ''CN=Example CA'', ''SHA256-RSA'', ''2048'']
        \<in> set out) \<and>
   (\<exists>err out. pemLoop exEnv exCollector ''arn:B'' [1, 1, 2, 7, 1, 2, 0] [] = Some (err, out) \<and>
      MustNewConstMetric (certificateInfo exCollector) GaugeValue (float64 1)
        [''arn:B'', ''4098'', ''CN=Example Root'', ''CN=Example CA'', ''SHA256-RSA'', ''256'']
        \<in> set out) \<and>
   pemLoop exEnv exCollector ''arn:B'' [1, 1, 1, 3, 1, 2] [] =
     Some (Some (errors_New ''unknown public key type''),
           certificateMetrics exCollector ''arn:B'' exCertRSA 2048)"
proof -
  let ?c1 = "\<lparr>Type = ''CERTIFICATE'', Bytes = [1]\<rparr>"
  let ?k = "\<lparr>Type = ''PRIVATE KEY'', Bytes = [7]\<rparr>"
  let ?c2 = "\<lparr>Type = ''CERTIFICATE'', Bytes = [2]\<rparr>"
  let ?c3 = "\<lparr>Type = ''CERTIFICATE'', Bytes = [3]\<rparr>"
  have I4097: "Itoa 4097 = ''4097''" and I4098: "Itoa 4098 = ''4098''"
    by (simp_all add: Itoa_def digits.simps digit_def)
  have s1: "pem_stream exEnv [1, 1, 2, 7, 1, 2, 0] ([] @ ?c1 # [?k, ?c2])"
    by (simp add: pem_stream_Cons pem_stream_Nil)
  have s2: "pem_stream exEnv [1, 1, 2, 7, 1, 2, 0] ([?c1, ?k] @ ?c2 # [])"
    by (simp add: pem_stream_Cons pem_stream_Nil)
  have s3: "pem_stream exEnv [1, 1, 1, 3, 1, 2] ([?c1] @ ?c3 # [?c2])"
    by (simp add: pem_stream_Cons pem_stream_Nil)
  have p2: "fst (extractFacts exEnv [?c1, ?k]) = None"
    by simp
  have p3: "fst (extractFacts exEnv [?c1]) = None"
    by simp
  have a: "\<exists>err out. pemLoop exEnv exCollector ''arn:B'' [1, 1, 2, 7, 1, 2, 0] [] = Some (err, out) \<and>
      MustNewConstMetric (certificateInfo exCollector) GaugeValue (float64 1)
        [''arn:B'', ''4097'', ''CN=Example Root'', ''CN=Example CA'', ''SHA256-RSA'', ''2048'']
        \<in> set out"
    using key_length_by_key_kind[OF s1, of exCertRSA exCollector "''arn:B''" "[]"]
    by (simp add: exCertRSA_def I4097 exModulus_BitLen Itoa_2048)
  have b: "\<exists>err out. pemLoop exEnv exCollector ''arn:B'' [1, 1, 2, 7, 1, 2, 0] [] = Some (err, out) \<and>
      MustNewConstMetric (certificateInfo exCollector) GaugeValue (float64 1)
        [''arn:B'', ''4098'', ''CN=Example Root'', ''CN=Example CA'', ''SHA256-RSA'', ''256'']
        \<in> set out"
    using key_length_by_key_kind[OF s2 p2, of exCertEC exCollector "''arn:B''" "[]"]
    by (simp add: exCertEC_def I4098 Itoa_256)
  have c: "pemLoop exEnv exCollector ''arn:B'' [1, 1, 1, 3, 1, 2] [] =
     Some (Some (errors_New ''unknown public key type''),
           certificateMetrics exCollector ''arn:B'' exCertRSA 2048)"
    using key_length_by_key_kind[OF s3 p3, of exCertOther exCollector "''arn:B''" "[]"]
    by (simp add: factMetrics_def exModulus_BitLen)
  from a b c show ?thesis by blast
qed

text \<open>
  Claim C7. On a PEM stream the loop takes the blocks \<open>pem.Decode\<close> returns, one after
  the other, until it returns none; the bytes that are left then end the loop without
  error. Blocks of a type other than CERTIFICATE and certificate blocks that do not parse
  are passed over, and the loop appends, in the order of the blocks, the three samples of
  each certificate block that parses (none of them with a key of an unknown kind, which
  is claim C6). A bundle of two valid certificate blocks and one other block gives the
  samples of exactly two certificates.
\<close>

theorem pemLoop_takes_the_certificate_blocks:
  assumes st: "pem_stream env pemData blocks"
    and keys: "list_all (\<lambda>cert. PublicKey cert \<noteq> other_PublicKey) (parsedCertificates env blocks)"
  shows "pemLoop env c arn pemData ms =
     Some (None, ms @ concat (map (\<lambda>cert. certificateMetrics c arn cert (keyLengthOf cert))
                                 (parsedCertificates env blocks)))"
proof -
  have "factMetrics c arn (map (\<lambda>cert. (cert, keyLengthOf cert)) certs) =
      concat (map (\<lambda>cert. certificateMetrics c arn cert (keyLengthOf cert)) certs)" for certs
    by (simp add: factMetrics_def comp_def)
  with pemLoop_stream[OF st, of c arn ms] extractFacts_parsed[OF keys] show ?thesis by simp
qed

theorem pemLoop_takes_the_certificate_blocks_witness:
  "pemLoop exEnv exCollector ''arn:B'' [1, 1, 2, 7, 1, 2, 0] [] =
     Some (None, certificateMetrics exCollector ''arn:B'' exCertRSA 2048 @
                 certificateMetrics exCollector ''arn:B'' exCertEC 256) \<and>
   pemLoop exEnv exCollector ''arn:B'' [1, 9, 1, 1, 2, 7, 1, 2, 0] [] =
     Some (None, certificateMetrics exCollector ''arn:B'' exCertRSA 2048 @
                 certificateMetrics exCollector ''arn:B'' exCertEC 256) \<and>
   length (certificateMetrics exCollector ''arn:B'' exCertRSA 2048 @
           certificateMetrics exCollector ''arn:B'' exCertEC 256) = 2 * 3"
proof -
  let ?c1 = "\<lparr>Type = ''CERTIFICATE'', Bytes = [1]\<rparr>"
  let ?k = "\<lparr>Type = ''PRIVATE KEY'', Bytes = [7]\<rparr>"
  let ?c2 = "\<lparr>Type = ''CERTIFICATE'', Bytes = [2]\<rparr>"
  let ?c9 = "\<lparr>Type = ''CERTIFICATE'', Bytes = [9]\<rparr>"
  have s2: "pem_stream exEnv [1, 9, 1, 1, 2, 7, 1, 2, 0] [?c9, ?c1, ?k, ?c2]"
    by (simp add: pem_stream_Cons pem_stream_Nil)
  have p1: "parsedCertificates exEnv [?c1, ?k, ?c2] = [exCertRSA, exCertEC]"
    and p2: "parsedCertificates exEnv [?c9, ?c1, ?k, ?c2] = [exCertRSA, exCertEC]"
    by (simp_all add: parsedCertificates_def map_filter_simps)
  have k: "keyLengthOf exCertRSA = 2048" "keyLengthOf exCertEC = 256"
    by (simp_all add: keyLengthOf_def exModulus_BitLen)
  from pemLoop_takes_the_certificate_blocks[OF exStream(1), of exCollector "''arn:B''" "[]"]
    pemLoop_takes_the_certificate_blocks[OF s2, of exCollector "''arn:B''" "[]"]
  show ?thesis by (simp add: p1 p2 k certificateMetrics_def)
qed

text \<open>
  Claim C8, as the specification states it, fails where it says that any single failure
  anywhere in the cycle makes the success sample 0: in the example environment whose
  bundles hold a certificate block that does not parse, \<open>x509.ParseCertificate\<close> returns
  an error, the loop logs it and goes on, and the cycle publishes the success sample 1.
\<close>

theorem parse_failure_leaves_success_counterexample:
  "pem_Decode exEnvMalformed [1, 9, 1, 1] = (Some \<lparr>Type = ''CERTIFICATE'', Bytes = [9]\<rparr>, [1, 1]) \<and>
   x509_ParseCertificate exEnvMalformed [9] = Inl (LibraryError ''x509: malformed certificate'') \<and>
   MustNewConstMetric (collectorSuccess exCollector) GaugeValue (float64 1) []
     \<in> set (published (scrape exEnvMalformed exCollector))"
proof -
  have "scrape exEnvMalformed exCollector = Some (Returned (exCollector\<lparr>metrics :=
      concat (map (contribution exEnvMalformed exCollector \<lparr>Region = ''eu-west-1''\<rparr>) [exStoreA, exStoreB]) @
      exporterMetrics exCollector 1700000000123456789 2500000000 True\<rparr>))"
    using scrape_stores[OF exEnvMalformed_consumes exEnvMalformed_complete, of exCollector
      "\<lparr>Region = ''eu-west-1''\<rparr>" "\<lparr>TrustStores = [exStoreA, exStoreB]\<rparr>"]
    by (simp add: exEnvMalformed_stores)
  then show ?thesis
    by (simp add: published_def exporterMetrics_def)
qed

text \<open>
  Claim C8, amended. Every cycle of a collector made by \<open>New\<close> publishes a snapshot with
  exactly one collector success sample. Its value is 1 if the configuration was resolved,
  the trust stores were enumerated and, for every enumerated trust store, the
  bundle-location call, the HTTP fetch and the body read succeeded and the extraction
  ended without error, and 0 otherwise; a certificate block that does not parse is passed
  over and is no such failure. The snapshot has exactly one last-scrape timestamp sample,
  the Unix time of the start of the cycle, exactly one duration sample, the time elapsed
  since the start of the cycle, and exactly one interval sample, the configured interval.
\<close>

theorem collector_success_iff_every_step_succeeds:
  assumes "pem_Decode_consumes env" and "responses_complete env"
    and "c = collectorOf reg arns iv old"
  shows "\<exists>c'. scrape env c = Some (Returned c') \<and>
     filter (\<lambda>m. desc m = collectorSuccess c) (metrics c') =
       [MustNewConstMetric (collectorSuccess c) GaugeValue
          (float64 (if cycleSucceeds env c then 1 else 0)) []] \<and>
     filter (\<lambda>m. desc m = exporterLastScrapeTimestamp c) (metrics c') =
       [MustNewConstMetric (exporterLastScrapeTimestamp c) GaugeValue
          (float64 (Unix (time_Now env))) []] \<and>
     filter (\<lambda>m. desc m = exporterScrapeDurationSeconds c) (metrics c') =
       [MustNewConstMetric (exporterScrapeDurationSeconds c) GaugeValue
          (Seconds (time_Since env (time_Now env))) []] \<and>
     filter (\<lambda>m. desc m = exporterScrapeInterval c) (metrics c') =
       [MustNewConstMetric (exporterScrapeInterval c) GaugeValue (Seconds iv) []]"
proof -
  let ?ex = "exporterMetrics c (time_Now env) (time_Since env (time_Now env)) (cycleSuccess env c)"
  let ?c' = "c\<lparr>metrics := collected env c @ ?ex\<rparr>"
  have r: "scrape env c = Some (Returned ?c')"
    by (rule scrape_result[OF assms(1,2)])
  have iv: "scrapeInterval c = iv" using assms(3) by simp
  note sf = single_desc_filters[OF assms(1,3)]
  note ef = exporter_single_filters[OF assms(3)]
  note cs = cycleSuccess_iff[OF assms(1,2), of c]
  have "filter (\<lambda>m. desc m = collectorSuccess c) (metrics ?c') =
       [MustNewConstMetric (collectorSuccess c) GaugeValue
          (float64 (if cycleSucceeds env c then 1 else 0)) []]"
    by (simp add: sf ef cs)
  moreover have "filter (\<lambda>m. desc m = exporterLastScrapeTimestamp c) (metrics ?c') =
       [MustNewConstMetric (exporterLastScrapeTimestamp c) GaugeValue
          (float64 (Unix (time_Now env))) []]"
    by (simp add: sf ef)
  moreover have "filter (\<lambda>m. desc m = exporterScrapeDurationSeconds c) (metrics ?c') =
       [MustNewConstMetric (exporterScrapeDurationSeconds c) GaugeValue
          (Seconds (time_Since env (time_Now env))) []]"
    by (simp add: sf ef)
  moreover have "filter (\<lambda>m. desc m = exporterScrapeInterval c) (metrics ?c') =
       [MustNewConstMetric (exporterScrapeInterval c) GaugeValue (Seconds iv) []]"
    by (simp add: sf ef iv)
  ultimately show ?thesis using r by blast
qed

theorem collector_success_iff_every_step_succeeds_witness:
  "(\<exists>c'. scrape exEnv exCollector = Some (Returned c') \<and>
     filter (\<lambda>m. desc m = collectorSuccess exCollector) (metrics c') =
       [MustNewConstMetric (collectorSuccess exCollector) GaugeValue (float64 0) []] \<and>
     filter (\<lambda>m. desc m = exporterLastScrapeTimestamp exCollector) (metrics c') =
       [MustNewConstMetric (exporterLastScrapeTimestamp exCollector) GaugeValue (float64 1700000000) []] \<and>
     filter (\<lambda>m. desc m = exporterScrapeDurationSeconds exCollector) (metrics c') =
       [MustNewConstMetric (exporterScrapeDurationSeconds exCollector) GaugeValue (Seconds 2500000000) []] \<and>
     filter (\<lambda>m. desc m = exporterScrapeInterval exCollector) (metrics c') =
       [MustNewConstMetric (exporterScrapeInterval exCollector) GaugeValue (Seconds 3600000000000) []]) \<and>
   (\<exists>c'. scrape exEnvOk exCollector = Some (Returned c') \<and>
     filter (\<lambda>m. desc m = collectorSuccess exCollector) (metrics c') =
       [MustNewConstMetric (collectorSuccess exCollector) GaugeValue (float64 1) []])"
proof -
  have u: "Unix 1700000000123456789 = 1700000000" by (simp add: Unix_def)
  from collector_success_iff_every_step_succeeds[OF exEnv_consumes exEnv_complete exCollector_def]
  have a: "\<exists>c'. scrape exEnv exCollector = Some (Returned c') \<and>
     filter (\<lambda>m. desc m = collectorSuccess exCollector) (metrics c') =
       [MustNewConstMetric (collectorSuccess exCollector) GaugeValue (float64 0) []] \<and>
     filter (\<lambda>m. desc m = exporterLastScrapeTimestamp exCollector) (metrics c') =
       [MustNewConstMetric (exporterLastScrapeTimestamp exCollector) GaugeValue (float64 1700000000) []] \<and>
     filter (\<lambda>m. desc m = exporterScrapeDurationSeconds exCollector) (metrics c') =
       [MustNewConstMetric (exporterScrapeDurationSeconds exCollector) GaugeValue (Seconds 2500000000) []] \<and>
     filter (\<lambda>m. desc m = exporterScrapeInterval exCollector) (metrics c') =
       [MustNewConstMetric (exporterScrapeInterval exCollector) GaugeValue (Seconds 3600000000000) []]"
    by (simp add: ex_cycleSucceeds u)
  from collector_success_iff_every_step_succeeds[OF exEnvOk_consumes exEnvOk_complete exCollector_def]
  have b: "\<exists>c'. scrape exEnvOk exCollector = Some (Returned c') \<and>
     filter (\<lambda>m. desc m = collectorSuccess exCollector) (metrics c') =
       [MustNewConstMetric (collectorSuccess exCollector) GaugeValue (float64 1) []]"
    by (auto simp: ex_cycleSucceeds)
  from a b show ?thesis by blast
qed

text \<open>
  Claim C9. Given that \<open>pem.Decode\<close> consumes its input, the loop returns on every byte
  stream, and the error it returns and the sequence of certificate facts it appends are
  the same for every run on the same bytes, whatever the slice collected so far and
  whatever snapshot the collector has published.
\<close>

theorem extraction_is_a_function_of_the_bytes:
  assumes "pem_Decode_consumes env"
  shows "\<exists>err facts. \<forall>old ms.
     pemLoop env (c\<lparr>metrics := old\<rparr>) arn pemData ms = Some (err, ms @ factMetrics c arn facts)"
proof -
  from pemLoop_total[OF assms, of pemData] obtain blocks where
    "\<forall>c arn ms. pemLoop env c arn pemData ms =
        Some (fst (extractFacts env blocks), ms @ factMetrics c arn (snd (extractFacts env blocks)))"
    by blast
  then have "\<forall>old ms. pemLoop env (c\<lparr>metrics := old\<rparr>) arn pemData ms =
      Some (fst (extractFacts env blocks), ms @ factMetrics c arn (snd (extractFacts env blocks)))"
    by simp
  then show ?thesis by blast
qed

theorem extraction_is_a_function_of_the_bytes_witness:
  "\<exists>err facts. \<forall>old ms.
     pemLoop exEnv (exCollector\<lparr>metrics := old\<rparr>) ''arn:B'' [1, 1, 2, 7, 1, 2, 0] ms =
       Some (err, ms @ factMetrics exCollector ''arn:B'' facts)"
  using extraction_is_a_function_of_the_bytes[OF exEnv_consumes] by blast

text \<open>
  Claim C10. In every snapshot a collector made by \<open>New\<close> publishes, the labels of a trust
  store info sample are a trust store ARN, a name and the region string the collector
  was made with, and every enumerated trust store has such a sample, whatever region the
  resolved configuration carries. With the empty region string the label is empty, also
  when the configuration discovers a region.
\<close>

theorem info_region_label_is_the_configured_region:
  assumes con: "pem_Decode_consumes env" and rc: "responses_complete env"
    and c: "c = collectorOf reg arns iv old"
  shows "\<exists>c'. scrape env c = Some (Returned c') \<and>
     list_all (\<lambda>m. \<exists>arn name. labelValues m = [arn, name, reg])
       (filter (\<lambda>m. desc m = trustStoreInfo c) (metrics c')) \<and>
     (\<forall>cfg result. LoadDefaultConfig env (cfgOptsOf c) = Inr cfg \<and>
        DescribeTrustStores env cfg (inputOf c) = Inr result \<longrightarrow>
        list_all (\<lambda>ts. \<exists>arn name. TrustStoreArn ts = Some arn \<and> Name ts = Some name \<and>
            MustNewConstMetric (trustStoreInfo c) GaugeValue (float64 1) [arn, name, reg]
              \<in> set (metrics c'))
          (TrustStores result))"
proof -
  let ?ex = "exporterMetrics c (time_Now env) (time_Since env (time_Now env)) (cycleSuccess env c)"
  let ?ms = "collected env c @ ?ex"
  have r: "scrape env c = Some (Returned (c\<lparr>metrics := ?ms\<rparr>))"
    by (rule scrape_result[OF con rc])
  have m: "metrics (c\<lparr>metrics := ?ms\<rparr>) = ?ms" by simp
  from rc have loc: "\<forall>svc arn bundle. GetTrustStoreCaCertificatesBundle env svc arn = Inr bundle
        \<longrightarrow> Location bundle \<noteq> None"
    by (simp add: responses_complete_def)
  have a: "list_all (\<lambda>m. \<exists>arn name. labelValues m = [arn, name, reg])
       (filter (\<lambda>m. desc m = trustStoreInfo c) ?ms)"
    unfolding list_all_iff
  proof
    fix x assume "x \<in> set (filter (\<lambda>m. desc m = trustStoreInfo c) ?ms)"
    then have x: "x \<in> set ?ms" and d: "desc x = trustStoreInfo c" by auto
    from d have "trustStoreLevel c x" by (simp add: trustStoreLevel_def)
    with levels_disjoint(1)[OF c] exporterMetrics_level have "x \<notin> set ?ex" by blast
    with x have "x \<in> set (collected env c)" by simp
    then obtain svc ts where "x \<in> set (contribution env c svc ts)"
      by (auto simp: collected_def split: sum.splits)
    from info_label[OF con c this d] show "\<exists>arn name. labelValues x = [arn, name, reg]" .
  qed
  have b: "list_all (\<lambda>ts. \<exists>arn name. TrustStoreArn ts = Some arn \<and> Name ts = Some name \<and>
            MustNewConstMetric (trustStoreInfo c) GaugeValue (float64 1) [arn, name, reg] \<in> set ?ms)
          (TrustStores result)"
    if cfg: "LoadDefaultConfig env (cfgOptsOf c) = Inr cfg"
      and res: "DescribeTrustStores env cfg (inputOf c) = Inr result" for cfg result
    unfolding list_all_iff
  proof
    fix ts assume ts: "ts \<in> set (TrustStores result)"
    from rc res have "list_all TrustStore_complete (TrustStores result)"
      by (simp add: responses_complete_def)
    with ts have "TrustStore_complete ts" by (simp add: list_all_iff)
    then obtain arn name n r where f: "TrustStoreArn ts = Some arn" "Name ts = Some name"
      "NumberOfCaCertificates ts = Some n" "TotalRevokedEntries ts = Some r"
      by (auto simp: TrustStore_complete_def)
    from contribution_complete[OF con loc f, of cfg c]
    have "MustNewConstMetric (trustStoreInfo c) GaugeValue (float64 1) [arn, name, region c]
        \<in> set (contribution env c cfg ts)"
      by (auto simp: trustStoreMetrics_def)
    with ts cfg res have "MustNewConstMetric (trustStoreInfo c) GaugeValue (float64 1) [arn, name, region c]
        \<in> set (collected env c)"
      by (auto simp: collected_def)
    with f c show "\<exists>arn name. TrustStoreArn ts = Some arn \<and> Name ts = Some name \<and>
            MustNewConstMetric (trustStoreInfo c) GaugeValue (float64 1) [arn, name, reg] \<in> set ?ms"
      by simp
  qed
  let ?c' = "c\<lparr>metrics := ?ms\<rparr>"
  from a have a': "list_all (\<lambda>m. \<exists>arn name. labelValues m = [arn, name, reg])
       (filter (\<lambda>m. desc m = trustStoreInfo c) (metrics ?c'))"
    by (simp only: m)
  from b have b': "\<forall>cfg result. LoadDefaultConfig env (cfgOptsOf c) = Inr cfg \<and>
        DescribeTrustStores env cfg (inputOf c) = Inr result \<longrightarrow>
        list_all (\<lambda>ts. \<exists>arn name. TrustStoreArn ts = Some arn \<and> Name ts = Some name \<and>
            MustNewConstMetric (trustStoreInfo c) GaugeValue (float64 1) [arn, name, reg]
              \<in> set (metrics ?c'))
          (TrustStores result)"
    by (simp only: m) blast
  from r a' b' show ?thesis by blast
qed

theorem info_region_label_is_the_configured_region_witness:
  "region exCollector = [] \<and>
   LoadDefaultConfig exEnv (cfgOptsOf exCollector) = Inr \<lparr>Region = ''eu-west-1''\<rparr> \<and>
   (\<exists>c'. scrape exEnv exCollector = Some (Returned c') \<and>
     list_all (\<lambda>m. \<exists>arn name. labelValues m = [arn, name, []])
       (filter (\<lambda>m. desc m = trustStoreInfo exCollector) (metrics c')) \<and>
     MustNewConstMetric (trustStoreInfo exCollector) GaugeValue (float64 1) [''arn:A'', ''A'', []]
       \<in> set (metrics c') \<and>
     MustNewConstMetric (trustStoreInfo exCollector) GaugeValue (float64 1) [''arn:B'', ''B'', []]
       \<in> set (metrics c'))"
  using info_region_label_is_the_configured_region[OF exEnv_consumes exEnv_complete exCollector_def]
  by (simp add: exStoreA_def exStoreB_def)

end
